theory Spec2Isabelle
  imports Complex_Main "HOL-Library.Monad_Syntax"
begin

section \<open>Floating-point values\<close>

text \<open>
  A C++ \<open>double\<close> is a finite value, one of the two infinities, or not-a-number.
  Finite values are idealised as exact reals: rounding, overflow of finite operands and
  the sign of zero are left out. The special values follow IEEE 754: not-a-number
  absorbs every operation and makes every ordered comparison false, and a finite
  non-zero numerator over zero is an infinity.
\<close>

datatype double = Fin real | PInf | NInf | NaN

fun isnan :: "double \<Rightarrow> bool" where
  "isnan NaN = True"
| "isnan _ = False"

fun positive :: "double \<Rightarrow> bool" where
  "positive (Fin a) = (0 < a)"
| "positive PInf = True"
| "positive _ = False"

instantiation double :: "{plus, minus, uminus, times, inverse, abs, ord}"
begin

fun plus_double :: "double \<Rightarrow> double \<Rightarrow> double" where
  "plus_double NaN _ = NaN"
| "plus_double _ NaN = NaN"
| "plus_double (Fin a) (Fin b) = Fin (a + b)"
| "plus_double PInf NInf = NaN"
| "plus_double NInf PInf = NaN"
| "plus_double PInf _ = PInf"
| "plus_double NInf _ = NInf"
| "plus_double (Fin a) y = y"

fun uminus_double :: "double \<Rightarrow> double" where
  "uminus_double (Fin a) = Fin (- a)"
| "uminus_double PInf = NInf"
| "uminus_double NInf = PInf"
| "uminus_double NaN = NaN"

definition minus_double :: "double \<Rightarrow> double \<Rightarrow> double" where
  "minus_double x y = x + (- y)"

fun times_double :: "double \<Rightarrow> double \<Rightarrow> double" where
  "times_double NaN _ = NaN"
| "times_double _ NaN = NaN"
| "times_double (Fin a) (Fin b) = Fin (a * b)"
| "times_double x y =
     (if x = Fin 0 \<or> y = Fin 0 then NaN
      else if positive x = positive y then PInf else NInf)"

fun divide_double :: "double \<Rightarrow> double \<Rightarrow> double" where
  "divide_double NaN _ = NaN"
| "divide_double _ NaN = NaN"
| "divide_double (Fin a) (Fin b) =
     (if b \<noteq> 0 then Fin (a / b)
      else if a = 0 then NaN
      else if 0 < a then PInf else NInf)"
| "divide_double (Fin a) _ = Fin 0"
| "divide_double x (Fin b) = (if positive x = (0 \<le> b) then PInf else NInf)"
| "divide_double _ _ = NaN"

fun inverse_double :: "double \<Rightarrow> double" where
  "inverse_double (Fin a) = (if a \<noteq> 0 then Fin (1 / a) else PInf)"
| "inverse_double NaN = NaN"
| "inverse_double _ = Fin 0"

fun abs_double :: "double \<Rightarrow> double" where
  "abs_double (Fin a) = Fin \<bar>a\<bar>"
| "abs_double PInf = PInf"
| "abs_double NInf = PInf"
| "abs_double NaN = NaN"

fun less_double :: "double \<Rightarrow> double \<Rightarrow> bool" where
  "less_double NaN _ = False"
| "less_double _ NaN = False"
| "less_double (Fin a) (Fin b) = (a < b)"
| "less_double _ NInf = False"
| "less_double PInf _ = False"
| "less_double _ _ = True"

definition less_eq_double :: "double \<Rightarrow> double \<Rightarrow> bool" where
  "less_eq_double x y = (x < y \<or> (x = y \<and> x \<noteq> NaN))"

instance ..

end

text \<open>\<open>std::min(a, b)\<close> is \<open>(b < a) ? b : a\<close> and \<open>std::max(a, b)\<close> is
  \<open>(a < b) ? b : a\<close>.\<close>

definition std_min :: "double \<Rightarrow> double \<Rightarrow> double" where
  "std_min a b = (if b < a then b else a)"

definition std_max :: "double \<Rightarrow> double \<Rightarrow> double" where
  "std_max a b = (if a < b then b else a)"

section \<open>Vectors and matrices\<close>

text \<open>An Eigen vector is a list, a matrix the list of its rows. An Eigen operation on
  operands whose sizes do not fit, and an index out of range, has no defined result:
  \<open>None\<close>.\<close>

type_synonym vec = "double list"
type_synonym matrix = "double list list"

definition at_index :: "'a list \<Rightarrow> nat \<Rightarrow> 'a option" where
  "at_index xs i = (if i < length xs then Some (xs ! i) else None)"

definition set_index :: "'a list \<Rightarrow> nat \<Rightarrow> 'a \<Rightarrow> 'a list option" where
  "set_index xs i v = (if i < length xs then Some (xs[i := v]) else None)"

definition zero_vec :: "nat \<Rightarrow> vec" where
  "zero_vec n = replicate n (Fin 0)"

definition vec_scale :: "vec \<Rightarrow> double \<Rightarrow> vec" where
  "vec_scale v c = map (\<lambda>x. x * c) v"

definition vec_div :: "vec \<Rightarrow> double \<Rightarrow> vec" where
  "vec_div v c = map (\<lambda>x. x / c) v"

definition vec_add :: "vec \<Rightarrow> vec \<Rightarrow> vec option" where
  "vec_add u v = (if length u = length v then Some (map (\<lambda>(x, y). x + y) (zip u v)) else None)"

definition vec_sub :: "vec \<Rightarrow> vec \<Rightarrow> vec option" where
  "vec_sub u v = (if length u = length v then Some (map (\<lambda>(x, y). x - y) (zip u v)) else None)"

definition dot :: "vec \<Rightarrow> vec \<Rightarrow> double option" where
  "dot u v = (if length u = length v
              then Some (foldl (\<lambda>acc (x, y). acc + x * y) (Fin 0) (zip u v)) else None)"

definition mat_vec :: "matrix \<Rightarrow> vec \<Rightarrow> vec option" where
  "mat_vec m v = (if \<forall>r \<in> set m. length r = length v
                  then Some (map (\<lambda>r. foldl (\<lambda>acc (x, y). acc + x * y) (Fin 0) (zip r v)) m)
                  else None)"

definition col :: "matrix \<Rightarrow> nat \<Rightarrow> vec option" where
  "col m j = (if \<forall>r \<in> set m. j < length r then Some (map (\<lambda>r. r ! j) m) else None)"

definition mat_mul :: "matrix \<Rightarrow> matrix \<Rightarrow> matrix option" where
  "mat_mul a b =
     (if \<forall>r \<in> set a. length r = length b
      then Some (map (\<lambda>r. map (\<lambda>j. foldl (\<lambda>acc (x, y). acc + x * y) (Fin 0)
                                       (zip r (map (\<lambda>br. br ! j) b)))
                              [0 ..< (if b = [] then 0 else length (hd b))]) a)
      else None)"

definition as_diagonal :: "vec \<Rightarrow> matrix" where
  "as_diagonal v = map (\<lambda>i. map (\<lambda>j. if i = j then v ! i else Fin 0) [0 ..< length v])
                       [0 ..< length v]"

section \<open>Messages, parameters and the robot model\<close>

datatype StatusCode =
    NO_WARNING
  | DECELERATE_FOR_SINGULARITY
  | HALT_FOR_SINGULARITY
  | DECELERATE_FOR_COLLISION
  | HALT_FOR_COLLISION
  | JOINT_BOUND

record Twist =
  linear_x :: double
  linear_y :: double
  linear_z :: double
  angular_x :: double
  angular_y :: double
  angular_z :: double

text \<open>A time stamp is a count of nanoseconds; \<open>rclcpp::Time(0.)\<close> is 0.\<close>

record TwistStamped =
  twist_frame_id :: string
  twist_stamp :: int
  twist :: Twist

record JointJog =
  jog_stamp :: int
  jog_joint_names :: "string list"
  jog_velocities :: "double list"

record JointState =
  js_name :: "string list"
  js_position :: "double list"
  js_velocity :: "double list"

record JointTrajectoryPoint =
  positions :: "double list"
  velocities :: "double list"
  accelerations :: "double list"
  time_from_start :: double

record JointTrajectory =
  traj_frame_id :: string
  traj_stamp :: int
  joint_names :: "string list"
  points :: "JointTrajectoryPoint list"

definition default_point :: JointTrajectoryPoint where
  "default_point = \<lparr>positions = [], velocities = [], accelerations = [],
                    time_from_start = Fin 0\<rparr>"

definition default_trajectory :: JointTrajectory where
  "default_trajectory = \<lparr>traj_frame_id = [], traj_stamp = 0, joint_names = [], points = []\<rparr>"

text \<open>The message that a tick publishes on the outgoing command topic.\<close>

datatype OutgoingCommand = Trajectory JointTrajectory | MultiArray "double list"

record ServoParameters =
  use_gazebo :: bool
  robot_link_command_frame :: string
  command_in_type :: string
  linear_scale :: double
  rotational_scale :: double
  joint_scale :: double
  publish_period :: double
  command_out_type :: string
  publish_joint_positions :: bool
  publish_joint_velocities :: bool
  publish_joint_accelerations :: bool
  low_pass_filter_coeff :: double
  planning_frame :: string
  incoming_command_timeout :: int
  num_outgoing_halt_msgs_to_publish :: int
  lower_singularity_threshold :: double
  hard_stop_singularity_threshold :: double
  joint_limit_margin :: double

record VariableBounds =
  min_position :: double
  max_position :: double
  position_bounded :: bool
  min_velocity :: double
  max_velocity :: double
  velocity_bounded :: bool
  min_acceleration :: double
  max_acceleration :: double
  acceleration_bounded :: bool

record JointLimits =
  limit_min_position :: double
  limit_max_position :: double

text \<open>An active joint of the move group: its name, the bounds of its variable and the
  limits message \<open>getVariableBoundsMsg\<close> gives for it.\<close>

record JointModel =
  getName :: string
  getVariableBounds :: VariableBounds
  getVariableBoundsMsg :: "JointLimits list"

text \<open>\<open>Eigen::Vector3d\<close>, a 3x3 matrix (by rows) and \<open>Eigen::Isometry3d\<close>, a rotation
  with a translation.\<close>

type_synonym vec3 = "double \<times> double \<times> double"
type_synonym mat3 = "vec3 \<times> vec3 \<times> vec3"

record Isometry3d =
  linear :: mat3
  translation :: vec3

definition dot3 :: "vec3 \<Rightarrow> vec3 \<Rightarrow> double" where
  "dot3 u v = (case (u, v) of ((a, b, c), (x, y, z)) \<Rightarrow> a * x + b * y + c * z)"

definition mat3_vec :: "mat3 \<Rightarrow> vec3 \<Rightarrow> vec3" where
  "mat3_vec m v = (case m of (r0, r1, r2) \<Rightarrow> (dot3 r0 v, dot3 r1 v, dot3 r2 v))"

definition mat3_transpose :: "mat3 \<Rightarrow> mat3" where
  "mat3_transpose m =
     (case m of ((a, b, c), (d, e, f), (g, h, i)) \<Rightarrow> ((a, d, g), (b, e, h), (c, f, i)))"

definition mat3_mul :: "mat3 \<Rightarrow> mat3 \<Rightarrow> mat3" where
  "mat3_mul a b =
     (case (a, mat3_transpose b) of ((r0, r1, r2), (c0, c1, c2)) \<Rightarrow>
        ((dot3 r0 c0, dot3 r0 c1, dot3 r0 c2),
         (dot3 r1 c0, dot3 r1 c1, dot3 r1 c2),
         (dot3 r2 c0, dot3 r2 c1, dot3 r2 c2)))"

definition vec3_add :: "vec3 \<Rightarrow> vec3 \<Rightarrow> vec3" where
  "vec3_add u v = (case (u, v) of ((a, b, c), (x, y, z)) \<Rightarrow> (a + x, b + y, c + z))"

definition vec3_neg :: "vec3 \<Rightarrow> vec3" where
  "vec3_neg u = (case u of (a, b, c) \<Rightarrow> (- a, - b, - c))"

definition isometry_inverse :: "Isometry3d \<Rightarrow> Isometry3d" where
  "isometry_inverse t =
     \<lparr>linear = mat3_transpose (linear t),
      translation = vec3_neg (mat3_vec (mat3_transpose (linear t)) (translation t))\<rparr>"

definition isometry_mul :: "Isometry3d \<Rightarrow> Isometry3d \<Rightarrow> Isometry3d" where
  "isometry_mul a b =
     \<lparr>linear = mat3_mul (linear a) (linear b),
      translation = vec3_add (mat3_vec (linear a) (translation b)) (translation a)\<rparr>"

record SVD =
  matrixU :: matrix
  singularValues :: vec
  matrixV :: matrix

text \<open>
  The robot state and Eigen's decompositions are outside the servo sources. They enter
  as parameters: \<open>'rs\<close> is the type of \<open>moveit::core::RobotState\<close>, and the record holds
  the operations the servo calls on it, the active joints of the move group, and the
  singular value decomposition and the matrix inverse of Eigen. \<open>getJointVelocities\<close>
  stands for the first entry of the array the robot state returns, the only one read.
\<close>

record 'rs Kinematics =
  getActiveJointModels :: "JointModel list"
  setVariableValues :: "JointState \<Rightarrow> 'rs \<Rightarrow> 'rs"
  copyJointGroupPositions :: "'rs \<Rightarrow> vec"
  setJointGroupPositions :: "vec \<Rightarrow> 'rs \<Rightarrow> 'rs"
  getJacobian :: "'rs \<Rightarrow> matrix"
  getGlobalLinkTransform :: "'rs \<Rightarrow> string \<Rightarrow> Isometry3d"
  getJointVelocities :: "'rs \<Rightarrow> JointModel \<Rightarrow> double"
  satisfiesPositionBounds :: "'rs \<Rightarrow> JointModel \<Rightarrow> double \<Rightarrow> bool"
  jacobiSVD :: "matrix \<Rightarrow> SVD"
  matrix_inverse :: "matrix \<Rightarrow> matrix"

text \<open>Modelled from the spec: the low-pass filter class (\<open>low_pass_filter.h\<close>) is not
  among the sources. A filter holds one scalar \<open>y\<close>; \<open>filter(x) = (1-a)*x + a*y\<close> with
  \<open>a = (coef - 1)/(coef + 1)\<close> stores and returns the new value, \<open>reset(x)\<close> sets
  \<open>y\<close> to \<open>x\<close>.\<close>

record LowPassFilter =
  filter_coef :: double
  filter_y :: double

definition filter_apply :: "LowPassFilter \<Rightarrow> double \<Rightarrow> double \<times> LowPassFilter" where
  "filter_apply f x =
     (let a = (filter_coef f - Fin 1) / (filter_coef f + Fin 1);
          y = (Fin 1 - a) * x + a * filter_y f
      in (y, f\<lparr>filter_y := y\<rparr>))"

definition filter_reset :: "LowPassFilter \<Rightarrow> double \<Rightarrow> LowPassFilter" where
  "filter_reset f x = f\<lparr>filter_y := x\<rparr>"


section \<open>The state of the servo calculations\<close>

text \<open>
  The members of \<open>ServoCalcs\<close>. The three \<open>_pub\<close> fields record what has been published
  on the status, stop-time and outgoing command topics, oldest first. The incoming
  joint state, the latest commands and the last sent command are shared pointers, null
  (\<open>None\<close>) until set; reading through a null pointer has no defined result. Logging
  is left out.
\<close>

record 'rs servo =
  zero_velocity_count :: int
  wait_for_servo_commands :: bool
  updated_filters :: bool
  have_nonzero_twist_stamped :: bool
  have_nonzero_joint_command :: bool
  have_nonzero_command :: bool
  twist_stamped_cmd :: TwistStamped
  joint_servo_cmd :: JointJog
  kinematic_state :: 'rs
  internal_joint_state :: JointState
  original_joint_state :: JointState
  position_filters :: "LowPassFilter list"
  last_sent_command :: "JointTrajectory option"
  status :: StatusCode
  stop_requested :: bool
  paused :: bool
  twist_command_is_stale :: bool
  joint_command_is_stale :: bool
  ok_to_publish :: bool
  collision_velocity_scale :: double
  delta_theta :: vec
  prev_joint_velocity :: vec
  drift_dimensions :: "nat \<Rightarrow> bool"
  control_dimensions :: "nat \<Rightarrow> bool"
  incoming_joint_state :: "JointState option"
  tf_moveit_to_robot_cmd_frame :: Isometry3d
  latest_twist_stamped :: "TwistStamped option"
  latest_joint_cmd :: "JointJog option"
  latest_twist_command_stamp :: int
  latest_joint_command_stamp :: int
  latest_nonzero_twist_stamped :: bool
  latest_nonzero_joint_cmd :: bool
  status_pub :: "StatusCode list"
  worst_case_stop_time_pub :: "double list"
  outgoing_cmd_pub :: "OutgoingCommand list"

definition num_joints :: "'rs Kinematics \<Rightarrow> nat" where
  "num_joints k = length (getActiveJointModels k)"

text \<open>The constructor fills \<open>joint_state_name_map_\<close> with the index of each active joint
  name, a later joint overwriting an earlier one of the same name.\<close>

definition joint_state_name_map :: "'rs Kinematics \<Rightarrow> string \<Rightarrow> nat option" where
  "joint_state_name_map k =
     map_of (rev (zip (map getName (getActiveJointModels k)) [0 ..< num_joints k]))"

definition INT_MAX :: int where
  "INT_MAX = 2147483647"

definition gazebo_redundant_message_count :: int where
  "gazebo_redundant_message_count = 30"

section \<open>The servo calculations\<close>

subsection \<open>Detecting zeroed messages\<close>

definition isNonZero_twist :: "TwistStamped \<Rightarrow> bool" where
  "isNonZero_twist msg =
     (linear_x (twist msg) \<noteq> Fin 0 \<or> linear_y (twist msg) \<noteq> Fin 0 \<or>
      linear_z (twist msg) \<noteq> Fin 0 \<or> angular_x (twist msg) \<noteq> Fin 0 \<or>
      angular_y (twist msg) \<noteq> Fin 0 \<or> angular_z (twist msg) \<noteq> Fin 0)"

definition isNonZero_jog :: "JointJog \<Rightarrow> bool" where
  "isNonZero_jog msg =
     (\<not> foldl (\<lambda>all_zeros delta. all_zeros \<and> delta = Fin 0) True (jog_velocities msg))"

subsection \<open>Subscription callbacks\<close>

definition twistStampedCB :: "TwistStamped \<Rightarrow> 'rs servo \<Rightarrow> 'rs servo" where
  "twistStampedCB msg s =
     (let s1 = s\<lparr>latest_twist_stamped := Some msg,
                 latest_nonzero_twist_stamped := isNonZero_twist msg\<rparr>
      in if twist_stamp msg \<noteq> 0 then s1\<lparr>latest_twist_command_stamp := twist_stamp msg\<rparr>
         else s1)"

definition jointCmdCB :: "JointJog \<Rightarrow> 'rs servo \<Rightarrow> 'rs servo" where
  "jointCmdCB msg s =
     (let s1 = s\<lparr>latest_joint_cmd := Some msg,
                 latest_nonzero_joint_cmd := isNonZero_jog msg\<rparr>
      in if jog_stamp msg \<noteq> 0 then s1\<lparr>latest_joint_command_stamp := jog_stamp msg\<rparr>
         else s1)"

definition collisionVelocityScaleCB :: "double \<Rightarrow> 'rs servo \<Rightarrow> 'rs servo" where
  "collisionVelocityScaleCB msg s = s\<lparr>collision_velocity_scale := msg\<rparr>"

definition jointStateCB :: "JointState \<Rightarrow> 'rs servo \<Rightarrow> 'rs servo" where
  "jointStateCB msg s = s\<lparr>incoming_joint_state := Some msg\<rparr>"

subsection \<open>Checking and scaling commands\<close>

definition checkValidCommand_jog :: "JointJog \<Rightarrow> bool" where
  "checkValidCommand_jog cmd = (\<not> (\<exists>velocity \<in> set (jog_velocities cmd). isnan velocity))"

definition checkValidCommand_twist :: "ServoParameters \<Rightarrow> TwistStamped \<Rightarrow> bool" where
  "checkValidCommand_twist p cmd =
     (if isnan (linear_x (twist cmd)) \<or> isnan (linear_y (twist cmd)) \<or>
         isnan (linear_z (twist cmd)) \<or> isnan (angular_x (twist cmd)) \<or>
         isnan (angular_y (twist cmd)) \<or> isnan (angular_z (twist cmd))
      then False
      else if command_in_type p = ''unitless'' \<and>
              (Fin 1 < \<bar>linear_x (twist cmd)\<bar> \<or> Fin 1 < \<bar>linear_y (twist cmd)\<bar> \<or>
               Fin 1 < \<bar>linear_z (twist cmd)\<bar> \<or> Fin 1 < \<bar>angular_x (twist cmd)\<bar> \<or>
               Fin 1 < \<bar>angular_y (twist cmd)\<bar> \<or> Fin 1 < \<bar>angular_z (twist cmd)\<bar>)
      then False
      else True)"

definition scaleCartesianCommand :: "ServoParameters \<Rightarrow> TwistStamped \<Rightarrow> vec" where
  "scaleCartesianCommand p command =
     (if command_in_type p = ''unitless'' then
        [linear_scale p * publish_period p * linear_x (twist command),
         linear_scale p * publish_period p * linear_y (twist command),
         linear_scale p * publish_period p * linear_z (twist command),
         rotational_scale p * publish_period p * angular_x (twist command),
         rotational_scale p * publish_period p * angular_y (twist command),
         rotational_scale p * publish_period p * angular_z (twist command)]
      else if command_in_type p = ''speed_units'' then
        [linear_x (twist command) * publish_period p,
         linear_y (twist command) * publish_period p,
         linear_z (twist command) * publish_period p,
         angular_x (twist command) * publish_period p,
         angular_y (twist command) * publish_period p,
         angular_z (twist command) * publish_period p]
      else zero_vec 6)"

fun scaleJointCommand_loop ::
  "'rs Kinematics \<Rightarrow> ServoParameters \<Rightarrow> JointJog \<Rightarrow> nat list \<Rightarrow> vec \<Rightarrow> vec option" where
  "scaleJointCommand_loop k p command [] result = Some result"
| "scaleJointCommand_loop k p command (m # ms) result =
     (case joint_state_name_map k (jog_joint_names command ! m) of
        None \<Rightarrow> scaleJointCommand_loop k p command ms result
      | Some c \<Rightarrow>
          if command_in_type p = ''unitless'' then do {
            v \<leftarrow> at_index (jog_velocities command) m;
            r \<leftarrow> set_index result c (v * joint_scale p * publish_period p);
            scaleJointCommand_loop k p command ms r }
          else if command_in_type p = ''speed_units'' then do {
            v \<leftarrow> at_index (jog_velocities command) m;
            r \<leftarrow> set_index result c (v * publish_period p);
            scaleJointCommand_loop k p command ms r }
          else scaleJointCommand_loop k p command ms result)"

definition scaleJointCommand :: "'rs Kinematics \<Rightarrow> ServoParameters \<Rightarrow> JointJog \<Rightarrow> vec option" where
  "scaleJointCommand k p command =
     scaleJointCommand_loop k p command [0 ..< length (jog_joint_names command)]
       (zero_vec (num_joints k))"

definition enforceControlDimensions :: "(nat \<Rightarrow> bool) \<Rightarrow> TwistStamped \<Rightarrow> TwistStamped" where
  "enforceControlDimensions control command =
     command\<lparr>twist :=
       \<lparr>linear_x = (if \<not> control 0 then Fin 0 else linear_x (twist command)),
        linear_y = (if \<not> control 1 then Fin 0 else linear_y (twist command)),
        linear_z = (if \<not> control 2 then Fin 0 else linear_z (twist command)),
        angular_x = (if \<not> control 3 then Fin 0 else angular_x (twist command)),
        angular_y = (if \<not> control 4 then Fin 0 else angular_y (twist command)),
        angular_z = (if \<not> control 5 then Fin 0 else angular_z (twist command))\<rparr>\<rparr>"

subsection \<open>Drift dimensions\<close>

text \<open>\<open>removeDimension\<close> moves the rows below \<open>row_to_remove\<close> up by one and drops the
  last row; the same for the entries of \<open>delta_x\<close>.\<close>

definition removeDimension :: "matrix \<Rightarrow> vec \<Rightarrow> nat \<Rightarrow> (matrix \<times> vec) option" where
  "removeDimension jacobian delta_x row_to_remove =
     (if jacobian = [] then None
      else let num_rows = length jacobian - 1 in
        if row_to_remove < num_rows then
          (if num_rows < length delta_x
           then Some (take row_to_remove jacobian @ drop (row_to_remove + 1) jacobian,
                      take row_to_remove delta_x @
                        take (num_rows - row_to_remove) (drop (row_to_remove + 1) delta_x))
           else None)
        else if num_rows \<le> length delta_x
        then Some (take num_rows jacobian, take num_rows delta_x)
        else None)"

fun removeDriftDimensions_loop ::
  "(nat \<Rightarrow> bool) \<Rightarrow> nat list \<Rightarrow> matrix \<times> vec \<Rightarrow> (matrix \<times> vec) option" where
  "removeDriftDimensions_loop drift [] (m, delta_x) = Some (m, delta_x)"
| "removeDriftDimensions_loop drift (dimension # ds) (m, delta_x) =
     (if 6 \<le> dimension then None
      else if drift dimension \<and> 1 < length m then do {
        r \<leftarrow> removeDimension m delta_x dimension;
        removeDriftDimensions_loop drift ds r }
      else removeDriftDimensions_loop drift ds (m, delta_x))"

definition removeDriftDimensions ::
  "(nat \<Rightarrow> bool) \<Rightarrow> matrix \<Rightarrow> vec \<Rightarrow> (matrix \<times> vec) option" where
  "removeDriftDimensions drift m delta_x =
     removeDriftDimensions_loop drift (rev [0 ..< length m]) (m, delta_x)"


subsection \<open>Singularities\<close>

definition velocityScalingFactorForSingularity ::
  "'rs Kinematics \<Rightarrow> ServoParameters \<Rightarrow> vec \<Rightarrow> SVD \<Rightarrow> matrix \<Rightarrow> 'rs servo \<Rightarrow>
   (double \<times> 'rs servo) option" where
  "velocityScalingFactorForSingularity k p commanded_velocity svd pseudo_inverse s = do {
     let num_dimensions = length commanded_velocity;
     vector_toward_singularity \<leftarrow>
       (if num_dimensions = 0 then None else col (matrixU svd) (num_dimensions - 1));
     sigma_first \<leftarrow> at_index (singularValues svd) 0;
     let ini_condition = sigma_first / last (singularValues svd);
     let delta_x = vec_div vector_toward_singularity (Fin 100);
     step \<leftarrow> mat_vec pseudo_inverse delta_x;
     new_theta \<leftarrow> vec_add (copyJointGroupPositions k (kinematic_state s)) step;
     let s1 = s\<lparr>kinematic_state := setJointGroupPositions k new_theta (kinematic_state s)\<rparr>;
     let new_jacobian = getJacobian k (kinematic_state s1);
     let new_svd = jacobiSVD k new_jacobian;
     new_first \<leftarrow> at_index (singularValues new_svd) 0;
     let new_condition = new_first / last (singularValues new_svd);
     let vector_toward_singularity =
       (if ini_condition \<ge> new_condition then vec_scale vector_toward_singularity (Fin (- 1))
        else vector_toward_singularity);
     dot_product \<leftarrow> dot vector_toward_singularity commanded_velocity;
     if dot_product > Fin 0 then
       if ini_condition > lower_singularity_threshold p \<and>
          ini_condition < hard_stop_singularity_threshold p
       then Some (Fin 1 - (ini_condition - lower_singularity_threshold p) /
                    (hard_stop_singularity_threshold p - lower_singularity_threshold p),
                  s1\<lparr>status := DECELERATE_FOR_SINGULARITY\<rparr>)
       else if ini_condition > hard_stop_singularity_threshold p
       then Some (Fin 0, s1\<lparr>status := HALT_FOR_SINGULARITY\<rparr>)
       else Some (Fin 1, s1)
     else Some (Fin 1, s1)
   }"

subsection \<open>Velocity and acceleration limits\<close>

text \<open>\<open>enforceSingleVelAccelLimit\<close> changes \<open>vel\<close> and \<open>delta\<close> through references; the
  model returns the pair. Its two blocks, the one under \<open>acceleration_bounded_\<close> and the
  one under \<open>velocity_bounded_\<close>, are definitions of their own.\<close>

definition clipAcceleration ::
  "ServoParameters \<Rightarrow> VariableBounds \<Rightarrow> double \<Rightarrow> double \<Rightarrow> double \<Rightarrow> double" where
  "clipAcceleration p bound prev_vel accel delta =
     (if acceleration_bounded bound then
        (let (clip_acceleration, acceleration_limit) =
           (if accel < min_acceleration bound then (True, min_acceleration bound)
            else if accel > max_acceleration bound then (True, max_acceleration bound)
            else (False, Fin 0))
         in if clip_acceleration then
              (let relative_change =
                 ((acceleration_limit * publish_period p + prev_vel) * publish_period p) / delta
               in if \<bar>relative_change\<bar> < Fin 1 then relative_change * delta else delta)
            else delta)
      else delta)"

definition clipVelocity ::
  "ServoParameters \<Rightarrow> VariableBounds \<Rightarrow> double \<Rightarrow> double \<Rightarrow> double \<times> double" where
  "clipVelocity p bound vel delta =
     (if velocity_bounded bound then
        (let vel1 = delta / publish_period p;
             (clip_velocity, velocity_limit) =
               (if vel1 < min_velocity bound then (True, min_velocity bound)
                else if vel1 > max_velocity bound then (True, max_velocity bound)
                else (False, Fin 0))
         in if clip_velocity then
              (let relative_change = (velocity_limit * publish_period p) / delta
               in if \<bar>relative_change\<bar> < Fin 1
                  then (relative_change * vel1, relative_change * delta)
                  else (vel1, delta))
            else (vel1, delta))
      else (vel, delta))"

definition enforceSingleVelAccelLimit ::
  "ServoParameters \<Rightarrow> VariableBounds \<Rightarrow> double \<Rightarrow> double \<Rightarrow> double \<Rightarrow> double \<Rightarrow>
   double \<times> double" where
  "enforceSingleVelAccelLimit p bound vel prev_vel accel delta =
     clipVelocity p bound vel (clipAcceleration p bound prev_vel accel delta)"

fun enforceSRDFAccelVelLimits_loop ::
  "ServoParameters \<Rightarrow> JointModel list \<Rightarrow> nat \<Rightarrow> vec \<Rightarrow> vec \<Rightarrow> vec \<Rightarrow> vec \<Rightarrow> vec option" where
  "enforceSRDFAccelVelLimits_loop p [] i velocity prev acceleration delta = Some delta"
| "enforceSRDFAccelVelLimits_loop p (joint # joints) i velocity prev acceleration delta = do {
     vel \<leftarrow> at_index velocity i;
     prev_vel \<leftarrow> at_index prev i;
     accel \<leftarrow> at_index acceleration i;
     d \<leftarrow> at_index delta i;
     let (vel1, d1) = enforceSingleVelAccelLimit p (getVariableBounds joint) vel prev_vel accel d;
     enforceSRDFAccelVelLimits_loop p joints (i + 1) (velocity[i := vel1]) prev acceleration
       (delta[i := d1])
   }"

definition enforceSRDFAccelVelLimits ::
  "'rs Kinematics \<Rightarrow> ServoParameters \<Rightarrow> vec \<Rightarrow> vec \<Rightarrow> vec option" where
  "enforceSRDFAccelVelLimits k p prev delta = do {
     let velocity = vec_div delta (publish_period p);
     difference \<leftarrow> vec_sub velocity prev;
     let acceleration = vec_div difference (publish_period p);
     enforceSRDFAccelVelLimits_loop p (getActiveJointModels k) 0 velocity prev acceleration delta
   }"

subsection \<open>Integration, filtering and the outgoing message\<close>

definition resetLowPassFilters :: "JointState \<Rightarrow> 'rs servo \<Rightarrow> 'rs servo option" where
  "resetLowPassFilters joint_state s =
     (if length (position_filters s) \<le> length (js_position joint_state)
      then Some (s\<lparr>position_filters :=
                     map (\<lambda>(f, x). filter_reset f x)
                       (zip (position_filters s) (js_position joint_state)),
                   updated_filters := True\<rparr>)
      else None)"

text \<open>\<open>applyJointUpdate\<close> is called on \<open>delta_theta_\<close>, \<open>internal_joint_state_\<close> and
  \<open>prev_joint_velocity_\<close>. Joint \<open>i\<close> is incremented by \<open>delta_theta[i]\<close> and filtered by
  filter \<open>i\<close>; its velocity is \<open>delta_theta[i] / publish_period\<close>.\<close>

definition applyJointUpdate :: "ServoParameters \<Rightarrow> 'rs servo \<Rightarrow> (bool \<times> 'rs servo) option" where
  "applyJointUpdate p s =
     (let joint_state = internal_joint_state s; n = length (js_position joint_state) in
      if n \<noteq> length (delta_theta s) \<or> length (js_velocity joint_state) \<noteq> n \<or>
         length (prev_joint_velocity s) \<noteq> n
      then Some (False, s)
      else if length (position_filters s) < n then None
      else
        (let filtered = map (\<lambda>((position, d), f). filter_apply f (position + d))
                          (zip (zip (js_position joint_state) (delta_theta s))
                               (position_filters s));
             velocity = map (\<lambda>d. d / publish_period p) (delta_theta s)
         in Some (True,
              s\<lparr>internal_joint_state :=
                   joint_state\<lparr>js_position := map fst filtered, js_velocity := velocity\<rparr>,
                position_filters := map snd filtered @ drop n (position_filters s),
                prev_joint_velocity := velocity\<rparr>)))"

definition composeJointTrajMessage ::
  "'rs Kinematics \<Rightarrow> ServoParameters \<Rightarrow> int \<Rightarrow> JointState \<Rightarrow> JointTrajectory \<Rightarrow> JointTrajectory"
  where
  "composeJointTrajMessage k p now joint_state joint_trajectory =
     (let point = \<lparr>positions = (if publish_joint_positions p then js_position joint_state else []),
                   velocities = (if publish_joint_velocities p then js_velocity joint_state else []),
                   accelerations =
                     (if publish_joint_accelerations p then zero_vec (num_joints k) else []),
                   time_from_start = publish_period p\<rparr>
      in joint_trajectory\<lparr>traj_frame_id := planning_frame p, traj_stamp := now,
                          joint_names := js_name joint_state,
                          points := points joint_trajectory @ [point]\<rparr>)"

text \<open>\<open>resize(count)\<close> keeps the first \<open>count\<close> points and fills with default-constructed
  ones.\<close>

definition resize_points :: "nat \<Rightarrow> JointTrajectoryPoint list \<Rightarrow> JointTrajectoryPoint list" where
  "resize_points n pts = take n pts @ replicate (n - length pts) default_point"

definition insertRedundantPointsIntoTrajectory ::
  "ServoParameters \<Rightarrow> JointTrajectory \<Rightarrow> int \<Rightarrow> JointTrajectory" where
  "insertRedundantPointsIntoTrajectory p joint_trajectory count =
     (if count < 2 then joint_trajectory
      else
        (let pts = resize_points (nat count) (points joint_trajectory);
             point = pts ! 0
         in joint_trajectory\<lparr>points :=
              foldl (\<lambda>ps i. ps[i := point\<lparr>time_from_start := Fin (real i) * publish_period p\<rparr>])
                pts [2 ..< nat count]\<rparr>))"

text \<open>\<open>suddenHalt\<close> writes entry \<open>i\<close> of the first point for every \<open>i < num_joints_\<close>: the
  original position when positions are published, zero when velocities are.\<close>

definition suddenHalt ::
  "'rs Kinematics \<Rightarrow> ServoParameters \<Rightarrow> 'rs servo \<Rightarrow> JointTrajectory \<Rightarrow> JointTrajectory option"
  where
  "suddenHalt k p s joint_trajectory =
     (let n = num_joints k;
          pts = (if points joint_trajectory = []
                 then [default_point\<lparr>positions := zero_vec n, velocities := zero_vec n\<rparr>]
                 else points joint_trajectory);
          point = hd pts
      in if publish_joint_positions p \<and>
            (length (positions point) < n \<or> length (js_position (original_joint_state s)) < n)
         then None
         else if publish_joint_velocities p \<and> length (velocities point) < n then None
         else Some (joint_trajectory\<lparr>points :=
                point\<lparr>positions :=
                        (if publish_joint_positions p
                         then take n (js_position (original_joint_state s)) @
                              drop n (positions point)
                         else positions point),
                      velocities :=
                        (if publish_joint_velocities p
                         then zero_vec n @ drop n (velocities point)
                         else velocities point)\<rparr> # tl pts\<rparr>))"

subsection \<open>Position limits\<close>

fun find_joint_angle :: "JointState \<Rightarrow> string \<Rightarrow> nat list \<Rightarrow> double option" where
  "find_joint_angle joint_state joint_name [] = Some (Fin 0)"
| "find_joint_angle joint_state joint_name (c # cs) =
     (if js_name joint_state ! c = joint_name then at_index (js_position joint_state) c
      else find_joint_angle joint_state joint_name cs)"

fun enforceSRDFPositionLimits_loop ::
  "'rs Kinematics \<Rightarrow> ServoParameters \<Rightarrow> 'rs servo \<Rightarrow> JointModel list \<Rightarrow> bool \<Rightarrow> bool option"
  where
  "enforceSRDFPositionLimits_loop k p s [] halting = Some halting"
| "enforceSRDFPositionLimits_loop k p s (joint # joints) halting = do {
     joint_angle \<leftarrow> find_joint_angle (original_joint_state s) (getName joint)
                      [0 ..< length (js_name (original_joint_state s))];
     let limits = getVariableBoundsMsg joint;
     let joint_velocity = getJointVelocities k (kinematic_state s) joint;
     let halting1 =
       (if \<not> satisfiesPositionBounds k (kinematic_state s) joint (- joint_limit_margin p) \<and>
           limits \<noteq> [] \<and>
           ((joint_velocity < Fin 0 \<and>
             joint_angle < limit_min_position (hd limits) + joint_limit_margin p) \<or>
            (joint_velocity > Fin 0 \<and>
             joint_angle > limit_max_position (hd limits) - joint_limit_margin p))
        then True else halting);
     enforceSRDFPositionLimits_loop k p s joints halting1
   }"

definition enforceSRDFPositionLimits ::
  "'rs Kinematics \<Rightarrow> ServoParameters \<Rightarrow> 'rs servo \<Rightarrow> bool option" where
  "enforceSRDFPositionLimits k p s = do {
     halting \<leftarrow> enforceSRDFPositionLimits_loop k p s (getActiveJointModels k) False;
     Some (\<not> halting)
   }"


subsection \<open>The shared update\<close>

text \<open>\<open>internalServoUpdate\<close> works on \<open>delta_theta_\<close> through a reference and fills the
  trajectory it is given; it returns whether the update succeeded. Two of its blocks
  are definitions of their own: the collision scaling, and what follows the joint
  update (the outgoing message, the position limits and the points for Gazebo).\<close>

definition applyCollisionScale :: "'rs servo \<Rightarrow> 'rs servo" where
  "applyCollisionScale s =
     (let collision_scale = collision_velocity_scale s;
          s1 = (if collision_scale > Fin 0 \<and> collision_scale < Fin 1
                then s\<lparr>status := DECELERATE_FOR_COLLISION\<rparr>
                else if collision_scale = Fin 0 then s\<lparr>status := HALT_FOR_COLLISION\<rparr>
                else s)
      in s1\<lparr>delta_theta := vec_scale (delta_theta s1) collision_scale\<rparr>)"

definition composeAndCheckLimits ::
  "'rs Kinematics \<Rightarrow> ServoParameters \<Rightarrow> int \<Rightarrow> JointTrajectory \<Rightarrow> 'rs servo \<Rightarrow>
   (JointTrajectory \<times> 'rs servo) option" where
  "composeAndCheckLimits k p now joint_trajectory s = do {
     let composed = composeJointTrajMessage k p now (internal_joint_state s) joint_trajectory;
     within_limits \<leftarrow> enforceSRDFPositionLimits k p s;
     (joint_trajectory, s) \<leftarrow>
       (if \<not> within_limits then do {
          halted \<leftarrow> suddenHalt k p s composed;
          Some (halted, s\<lparr>status := JOINT_BOUND,
                          prev_joint_velocity := zero_vec (length (prev_joint_velocity s))\<rparr>) }
        else Some (composed, s));
     Some (if use_gazebo p
           then insertRedundantPointsIntoTrajectory p joint_trajectory
                  gazebo_redundant_message_count
           else joint_trajectory, s)
   }"

definition internalServoUpdate ::
  "'rs Kinematics \<Rightarrow> ServoParameters \<Rightarrow> int \<Rightarrow> JointTrajectory \<Rightarrow> 'rs servo \<Rightarrow>
   (bool \<times> JointTrajectory \<times> 'rs servo) option" where
  "internalServoUpdate k p now joint_trajectory s = do {
     let s = s\<lparr>internal_joint_state := original_joint_state s\<rparr>;
     limited \<leftarrow> enforceSRDFAccelVelLimits k p (prev_joint_velocity s) (delta_theta s);
     let s = applyCollisionScale (s\<lparr>delta_theta := limited\<rparr>);
     (updated, s) \<leftarrow> applyJointUpdate p s;
     if \<not> updated then Some (False, joint_trajectory, s)
     else do {
       (joint_trajectory, s) \<leftarrow>
         composeAndCheckLimits k p now joint_trajectory (s\<lparr>updated_filters := True\<rparr>);
       Some (True, joint_trajectory, s)
     }
   }"

subsection \<open>Cartesian and joint commands\<close>

definition transformToPlanningFrame ::
  "'rs Kinematics \<Rightarrow> ServoParameters \<Rightarrow> 'rs servo \<Rightarrow> TwistStamped \<Rightarrow> TwistStamped" where
  "transformToPlanningFrame k p s cmd =
     (if twist_frame_id cmd \<noteq> planning_frame p then
        (let translation_vector =
               (linear_x (twist cmd), linear_y (twist cmd), linear_z (twist cmd));
             angular_vector =
               (angular_x (twist cmd), angular_y (twist cmd), angular_z (twist cmd));
             tf = (if twist_frame_id cmd = [] \<or> twist_frame_id cmd = robot_link_command_frame p
                   then tf_moveit_to_robot_cmd_frame s
                   else isometry_mul
                          (isometry_inverse
                             (getGlobalLinkTransform k (kinematic_state s) (planning_frame p)))
                          (getGlobalLinkTransform k (kinematic_state s) (twist_frame_id cmd)))
         in case (mat3_vec (linear tf) translation_vector, mat3_vec (linear tf) angular_vector)
            of ((tx, ty, tz), (ax, ay, az)) \<Rightarrow>
              cmd\<lparr>twist_frame_id := planning_frame p,
                  twist := \<lparr>linear_x = tx, linear_y = ty, linear_z = tz,
                            angular_x = ax, angular_y = ay, angular_z = az\<rparr>\<rparr>)
      else cmd)"

text \<open>\<open>cartesianServoCalcs\<close> is called on \<open>twist_stamped_cmd_\<close> through a reference.\<close>

definition cartesianServoCalcs ::
  "'rs Kinematics \<Rightarrow> ServoParameters \<Rightarrow> int \<Rightarrow> JointTrajectory \<Rightarrow> 'rs servo \<Rightarrow>
   (bool \<times> JointTrajectory \<times> 'rs servo) option" where
  "cartesianServoCalcs k p now joint_trajectory s =
     (if \<not> checkValidCommand_twist p (twist_stamped_cmd s) then Some (False, joint_trajectory, s)
      else do {
        let s = s\<lparr>twist_stamped_cmd :=
                    enforceControlDimensions (control_dimensions s) (twist_stamped_cmd s)\<rparr>;
        let s = s\<lparr>twist_stamped_cmd := transformToPlanningFrame k p s (twist_stamped_cmd s)\<rparr>;
        let delta_x = scaleCartesianCommand p (twist_stamped_cmd s);
        let jacobian = getJacobian k (kinematic_state s);
        (jacobian, delta_x) \<leftarrow> removeDriftDimensions (drift_dimensions s) jacobian delta_x;
        let svd = jacobiSVD k jacobian;
        let matrix_s = as_diagonal (singularValues svd);
        v_s_inverse \<leftarrow> mat_mul (matrixV svd) (matrix_inverse k matrix_s);
        pseudo_inverse \<leftarrow> mat_mul v_s_inverse (transpose (matrixU svd));
        product \<leftarrow> mat_vec pseudo_inverse delta_x;
        let s = s\<lparr>delta_theta := product\<rparr>;
        (velocity_scale, s) \<leftarrow>
          velocityScalingFactorForSingularity k p delta_x svd pseudo_inverse s;
        let s = s\<lparr>delta_theta := vec_scale (delta_theta s) velocity_scale\<rparr>;
        internalServoUpdate k p now joint_trajectory s
      })"

definition jointServoCalcs ::
  "'rs Kinematics \<Rightarrow> ServoParameters \<Rightarrow> int \<Rightarrow> JointTrajectory \<Rightarrow> 'rs servo \<Rightarrow>
   (bool \<times> JointTrajectory \<times> 'rs servo) option" where
  "jointServoCalcs k p now joint_trajectory s =
     (if \<not> checkValidCommand_jog (joint_servo_cmd s) then Some (False, joint_trajectory, s)
      else do {
        scaled \<leftarrow> scaleJointCommand k p (joint_servo_cmd s);
        internalServoUpdate k p now joint_trajectory (s\<lparr>delta_theta := scaled\<rparr>)
      })"

subsection \<open>Joint states and the worst-case stop time\<close>

fun updateJoints_loop ::
  "(string \<Rightarrow> nat option) \<Rightarrow> JointState \<Rightarrow> nat list \<Rightarrow> JointState \<Rightarrow> JointState option" where
  "updateJoints_loop name_map incoming [] internal = Some internal"
| "updateJoints_loop name_map incoming (m # ms) internal =
     (case name_map (js_name incoming ! m) of
        None \<Rightarrow> updateJoints_loop name_map incoming ms internal
      | Some c \<Rightarrow> do {
          position \<leftarrow> at_index (js_position incoming) m;
          updated \<leftarrow> set_index (js_position internal) c position;
          updateJoints_loop name_map incoming ms (internal\<lparr>js_position := updated\<rparr>) })"

definition updateJoints :: "'rs Kinematics \<Rightarrow> 'rs servo \<Rightarrow> (bool \<times> 'rs servo) option" where
  "updateJoints k s = do {
     incoming \<leftarrow> incoming_joint_state s;
     if length (js_name incoming) < num_joints k then Some (False, s)
     else do {
       internal \<leftarrow> updateJoints_loop (joint_state_name_map k) incoming
                     [0 ..< length (js_name incoming)] (internal_joint_state s);
       Some (True, s\<lparr>internal_joint_state := internal, original_joint_state := internal\<rparr>)
     }
   }"

text \<open>The loop of \<open>calculateWorstCaseStopTime\<close> runs over the velocities of the incoming
  joint state. \<open>accel_limit\<close> and \<open>worst_case_stop_time\<close> are declared before the loop and
  carried from one joint to the next.\<close>

fun calculateWorstCaseStopTime_loop ::
  "JointModel list \<Rightarrow> JointState \<Rightarrow> nat list \<Rightarrow> double \<times> double \<Rightarrow> (double \<times> double) option"
  where
  "calculateWorstCaseStopTime_loop joint_models incoming [] (accel_limit, worst) =
     Some (accel_limit, worst)"
| "calculateWorstCaseStopTime_loop joint_models incoming (jt_state_idx # rest)
     (accel_limit, worst) = do {
     joint_name \<leftarrow> at_index (js_name incoming) jt_state_idx;
     let accel_limit =
       (case find (\<lambda>joint_model. getName joint_model = joint_name) joint_models of
          Some joint_model \<Rightarrow>
            if acceleration_bounded (getVariableBounds joint_model)
            then std_min \<bar>min_acceleration (getVariableBounds joint_model)\<bar>
                         \<bar>max_acceleration (getVariableBounds joint_model)\<bar>
            else accel_limit
        | None \<Rightarrow> accel_limit);
     joint_velocity \<leftarrow> at_index (js_velocity incoming) jt_state_idx;
     calculateWorstCaseStopTime_loop joint_models incoming rest
       (accel_limit, std_max worst \<bar>joint_velocity / accel_limit\<bar>)
   }"

definition calculateWorstCaseStopTime :: "'rs Kinematics \<Rightarrow> 'rs servo \<Rightarrow> 'rs servo option" where
  "calculateWorstCaseStopTime k s = do {
     incoming \<leftarrow> incoming_joint_state s;
     (accel_limit, worst_case_stop_time) \<leftarrow>
       calculateWorstCaseStopTime_loop (getActiveJointModels k) incoming
         [0 ..< length (js_velocity incoming)] (Fin 0, Fin 0);
     Some (s\<lparr>worst_case_stop_time_pub := worst_case_stop_time_pub s @ [worst_case_stop_time]\<rparr>)
   }"


subsection \<open>Start and the periodic tick\<close>


text \<open>The block of \<open>run\<close> that copies the latest inputs under the mutex. \<open>now\<close> is the
  node's clock and \<open>incoming_command_timeout\<close> the timeout as a duration, both in
  nanoseconds.\<close>

definition updateFromLatestState ::
  "'rs Kinematics \<Rightarrow> ServoParameters \<Rightarrow> int \<Rightarrow> 'rs servo \<Rightarrow> 'rs servo option" where
  "updateFromLatestState k p now s = do {
     incoming \<leftarrow> incoming_joint_state s;
     let s = s\<lparr>kinematic_state := setVariableValues k incoming (kinematic_state s)\<rparr>;
     let s = (case latest_twist_stamped s of
                Some msg \<Rightarrow> s\<lparr>twist_stamped_cmd := msg\<rparr> | None \<Rightarrow> s);
     let s = (case latest_joint_cmd s of
                Some msg \<Rightarrow> s\<lparr>joint_servo_cmd := msg\<rparr> | None \<Rightarrow> s);
     Some (s\<lparr>twist_command_is_stale :=
                (now - latest_twist_command_stamp s \<ge> incoming_command_timeout p),
              joint_command_is_stale :=
                (now - latest_joint_command_stamp s \<ge> incoming_command_timeout p),
              have_nonzero_twist_stamped := latest_nonzero_twist_stamped s,
              have_nonzero_joint_command := latest_nonzero_joint_cmd s\<rparr>)
   }"

text \<open>The choice between Cartesian servoing, joint servoing and the last sent command.
  In the last branch the loop that is meant to zero the velocities assigns to a copy of
  each point (\<open>for (auto point : ...)\<close>), so the trajectory stays as copied.\<close>

definition run_servo_calcs ::
  "'rs Kinematics \<Rightarrow> ServoParameters \<Rightarrow> int \<Rightarrow> 'rs servo \<Rightarrow>
   (bool \<times> JointTrajectory \<times> 'rs servo) option" where
  "run_servo_calcs k p now s =
     (if have_nonzero_twist_stamped s \<and> \<not> twist_command_is_stale s
      then cartesianServoCalcs k p now default_trajectory s
      else if have_nonzero_joint_command s \<and> \<not> joint_command_is_stale s
      then jointServoCalcs k p now default_trajectory s
      else do {
        last_sent \<leftarrow> last_sent_command s;
        Some (True, last_sent, s)
      })"

text \<open>Publishing the outgoing command in the configured format.\<close>

definition publish_outgoing ::
  "ServoParameters \<Rightarrow> int \<Rightarrow> JointTrajectory \<Rightarrow> 'rs servo \<Rightarrow> 'rs servo option" where
  "publish_outgoing p now joint_trajectory s =
     (if command_out_type p = ''trajectory_msgs/JointTrajectory'' then
        (if last_sent_command s = None then None
         else let stamped = joint_trajectory\<lparr>traj_stamp := now\<rparr>
              in Some (s\<lparr>last_sent_command := Some stamped,
                         outgoing_cmd_pub := outgoing_cmd_pub s @ [Trajectory stamped]\<rparr>))
      else if command_out_type p = ''std_msgs/Float64MultiArray'' then
        (if last_sent_command s = None then None
         else let joints =
                (if publish_joint_positions p \<and> points joint_trajectory \<noteq> []
                 then positions (hd (points joint_trajectory))
                 else if publish_joint_velocities p \<and> points joint_trajectory \<noteq> []
                 then velocities (hd (points joint_trajectory))
                 else [])
              in Some (s\<lparr>last_sent_command := Some joint_trajectory,
                         outgoing_cmd_pub := outgoing_cmd_pub s @ [MultiArray joints]\<rparr>))
      else Some s)"

text \<open>The rest of \<open>run\<close> after the servo calculations, block by block: the halt when
  there is no nonzero command, the decision to publish, the zero-velocity counter, and
  then the publication and the filters.\<close>

definition haltIfNoCommand ::
  "'rs Kinematics \<Rightarrow> ServoParameters \<Rightarrow> JointTrajectory \<Rightarrow> 'rs servo \<Rightarrow>
   (JointTrajectory \<times> 'rs servo) option" where
  "haltIfNoCommand k p joint_trajectory s =
     (if \<not> have_nonzero_command s then do {
        halted \<leftarrow> suddenHalt k p s joint_trajectory;
        Some (halted, s\<lparr>have_nonzero_twist_stamped := False,
                        have_nonzero_joint_command := False\<rparr>) }
      else Some (joint_trajectory, s))"

definition decidePublication :: "ServoParameters \<Rightarrow> 'rs servo \<Rightarrow> 'rs servo" where
  "decidePublication p s =
     (if \<not> have_nonzero_command s \<and> num_outgoing_halt_msgs_to_publish p \<noteq> 0 \<and>
         zero_velocity_count s > num_outgoing_halt_msgs_to_publish p
      then s\<lparr>ok_to_publish := False\<rparr>
      else s\<lparr>ok_to_publish := True\<rparr>)"

definition countZeroVelocity :: "'rs servo \<Rightarrow> 'rs servo" where
  "countZeroVelocity s =
     (if \<not> have_nonzero_command s
      then (if zero_velocity_count s < INT_MAX
            then s\<lparr>zero_velocity_count := zero_velocity_count s + 1\<rparr> else s)
      else s\<lparr>zero_velocity_count := 0\<rparr>)"

definition run_finish ::
  "'rs Kinematics \<Rightarrow> ServoParameters \<Rightarrow> int \<Rightarrow> JointTrajectory \<Rightarrow> 'rs servo \<Rightarrow> 'rs servo option"
  where
  "run_finish k p now joint_trajectory s = do {
     (joint_trajectory, s) \<leftarrow> haltIfNoCommand k p joint_trajectory s;
     let s = countZeroVelocity (decidePublication p s);
     s \<leftarrow> (if ok_to_publish s then publish_outgoing p now joint_trajectory s else Some s);
     if \<not> updated_filters s then resetLowPassFilters (original_joint_state s) s else Some s
   }"

text \<open>
  One tick, in two parts. \<open>run_begin\<close> is \<open>run\<close> up to the test for pausing: it publishes
  and resets the status, refreshes the joints, publishes the stop time and copies the
  latest inputs. When the incoming joint state names fewer joints than the group has,
  \<open>run\<close> sleeps and retries until another thread delivers a longer one, and returns at
  once if a stop was requested (the flag returned is \<open>False\<close>); with the inputs as
  they are the tick then has no result.
\<close>

definition run_begin ::
  "'rs Kinematics \<Rightarrow> ServoParameters \<Rightarrow> int \<Rightarrow> 'rs servo \<Rightarrow> (bool \<times> 'rs servo) option" where
  "run_begin k p now s = do {
     let s = s\<lparr>status_pub := status_pub s @ [status s]\<rparr>;
     let s = s\<lparr>status := NO_WARNING\<rparr>;
     (updated, s) \<leftarrow> updateJoints k s;
     if \<not> updated then (if stop_requested s then Some (False, s) else None)
     else do {
       s \<leftarrow> calculateWorstCaseStopTime k s;
       s \<leftarrow> updateFromLatestState k p now s;
       let s = s\<lparr>tf_moveit_to_robot_cmd_frame :=
                   isometry_mul
                     (isometry_inverse
                        (getGlobalLinkTransform k (kinematic_state s) (planning_frame p)))
                     (getGlobalLinkTransform k (kinematic_state s)
                        (robot_link_command_frame p))\<rparr>;
       let s = s\<lparr>have_nonzero_command :=
                   (have_nonzero_twist_stamped s \<or> have_nonzero_joint_command s)\<rparr>;
       Some (True, s\<lparr>updated_filters := False\<rparr>)
     }
   }"

definition run :: "'rs Kinematics \<Rightarrow> ServoParameters \<Rightarrow> int \<Rightarrow> 'rs servo \<Rightarrow> 'rs servo option" where
  "run k p now s = do {
     (continue, s) \<leftarrow> run_begin k p now s;
     if \<not> continue then Some s
     else if wait_for_servo_commands s \<or> paused s then do {
       s \<leftarrow> resetLowPassFilters (original_joint_state s) s;
       Some (s\<lparr>wait_for_servo_commands :=
                 (twist_stamp (twist_stamped_cmd s) = 0 \<and> jog_stamp (joint_servo_cmd s) = 0)\<rparr>) }
     else do {
       (calculated, joint_trajectory, s) \<leftarrow> run_servo_calcs k p now s;
       if \<not> calculated then resetLowPassFilters (original_joint_state s) s
       else run_finish k p now joint_trajectory s
     }
   }"

text \<open>The commands a tick works on: the latest message where one has arrived, the
  member as it was otherwise.\<close>

definition selected_twist :: "'rs servo \<Rightarrow> TwistStamped" where
  "selected_twist s =
     (case latest_twist_stamped s of Some msg \<Rightarrow> msg | None \<Rightarrow> twist_stamped_cmd s)"

definition selected_jog :: "'rs servo \<Rightarrow> JointJog" where
  "selected_jog s =
     (case latest_joint_cmd s of Some msg \<Rightarrow> msg | None \<Rightarrow> joint_servo_cmd s)"

subsection \<open>What a published command carries\<close>




section \<open>A one-joint instance\<close>

text \<open>A robot with the single joint \<open>j1\<close>, whose state is the list of its group positions,
  with unit Jacobian and decomposition; used where a property is shown on a concrete
  input.\<close>

definition unbounded :: VariableBounds where
  "unbounded = \<lparr>min_position = Fin 0, max_position = Fin 0, position_bounded = False,
                min_velocity = Fin 0, max_velocity = Fin 0, velocity_bounded = False,
                min_acceleration = Fin 0, max_acceleration = Fin 0,
                acceleration_bounded = False\<rparr>"

definition joint_j1 :: JointModel where
  "joint_j1 = \<lparr>getName = ''j1'', getVariableBounds = unbounded, getVariableBoundsMsg = []\<rparr>"

definition identity_isometry :: Isometry3d where
  "identity_isometry =
     \<lparr>linear = ((Fin 1, Fin 0, Fin 0), (Fin 0, Fin 1, Fin 0), (Fin 0, Fin 0, Fin 1)),
      translation = (Fin 0, Fin 0, Fin 0)\<rparr>"

definition unit_svd :: SVD where
  "unit_svd = \<lparr>matrixU = [[Fin 1]], singularValues = [Fin 1], matrixV = [[Fin 1]]\<rparr>"

definition robot1 :: "vec Kinematics" where
  "robot1 =
     \<lparr>getActiveJointModels = [joint_j1],
      setVariableValues = (\<lambda>joint_state rs. js_position joint_state),
      copyJointGroupPositions = (\<lambda>rs. rs),
      setJointGroupPositions = (\<lambda>theta rs. theta),
      getJacobian = (\<lambda>rs. [[Fin 1]]),
      getGlobalLinkTransform = (\<lambda>rs frame. identity_isometry),
      getJointVelocities = (\<lambda>rs joint. Fin 0),
      satisfiesPositionBounds = (\<lambda>rs joint margin. True),
      jacobiSVD = (\<lambda>m. unit_svd),
      matrix_inverse = (\<lambda>m. m)\<rparr>"

definition parameters1 :: ServoParameters where
  "parameters1 =
     \<lparr>use_gazebo = False, robot_link_command_frame = ''tool'',
      command_in_type = ''speed_units'', linear_scale = Fin 1, rotational_scale = Fin 1,
      joint_scale = Fin 1, publish_period = Fin 1,
      command_out_type = ''trajectory_msgs/JointTrajectory'',
      publish_joint_positions = True, publish_joint_velocities = True,
      publish_joint_accelerations = False, low_pass_filter_coeff = Fin 1,
      planning_frame = ''base'', incoming_command_timeout = 1000000000,
      num_outgoing_halt_msgs_to_publish = 2, lower_singularity_threshold = Fin 10,
      hard_stop_singularity_threshold = Fin 20, joint_limit_margin = Fin 0\<rparr>"

definition zero_twist :: Twist where
  "zero_twist = \<lparr>linear_x = Fin 0, linear_y = Fin 0, linear_z = Fin 0,
                 angular_x = Fin 0, angular_y = Fin 0, angular_z = Fin 0\<rparr>"

definition joint_state1 :: JointState where
  "joint_state1 = \<lparr>js_name = [''j1''], js_position = [Fin 0], js_velocity = [Fin 0]\<rparr>"

definition halted1 :: JointTrajectory where
  "halted1 = \<lparr>traj_frame_id = ''base'', traj_stamp = 0, joint_names = [''j1''],
              points = [\<lparr>positions = [Fin 0], velocities = [Fin 0], accelerations = [],
                         time_from_start = Fin 1\<rparr>]\<rparr>"

text \<open>The servo after \<open>start()\<close>, with a joint state received, no command yet, and the
  wait for a first command over.\<close>

definition servo1 :: "vec servo" where
  "servo1 =
     \<lparr>zero_velocity_count = 0, wait_for_servo_commands = False, updated_filters = False,
      have_nonzero_twist_stamped = False, have_nonzero_joint_command = False,
      have_nonzero_command = False,
      twist_stamped_cmd = \<lparr>twist_frame_id = [], twist_stamp = 0, twist = zero_twist\<rparr>,
      joint_servo_cmd = \<lparr>jog_stamp = 0, jog_joint_names = [], jog_velocities = []\<rparr>,
      kinematic_state = [Fin 0],
      internal_joint_state = joint_state1, original_joint_state = joint_state1,
      position_filters = [\<lparr>filter_coef = Fin 1, filter_y = Fin 0\<rparr>],
      last_sent_command = Some halted1,
      status = NO_WARNING, stop_requested = False, paused = False,
      twist_command_is_stale = False, joint_command_is_stale = False,
      ok_to_publish = False, collision_velocity_scale = Fin 1,
      delta_theta = [Fin 0], prev_joint_velocity = [Fin 0],
      drift_dimensions = (\<lambda>d. False), control_dimensions = (\<lambda>d. True),
      incoming_joint_state = Some joint_state1,
      tf_moveit_to_robot_cmd_frame = identity_isometry,
      latest_twist_stamped = None, latest_joint_cmd = None,
      latest_twist_command_stamp = 0, latest_joint_command_stamp = 0,
      latest_nonzero_twist_stamped = False, latest_nonzero_joint_cmd = False,
      status_pub = [], worst_case_stop_time_pub = [], outgoing_cmd_pub = []\<rparr>"


text \<open>A decomposition with two task dimensions and condition number 20, the hard-stop
  threshold of \<open>parameters1\<close>.\<close>

definition svd2 :: SVD where
  "svd2 = \<lparr>matrixU = [[Fin 1, Fin 0], [Fin 0, Fin 1]], singularValues = [Fin 20, Fin 1],
           matrixV = [[Fin 1]]\<rparr>"

text \<open>Twist commands for the instance: a unit motion along x without a stamp, no motion
  with a stamp, and a command with a component that is not a number.\<close>

definition moving_twist :: TwistStamped where
  "moving_twist = \<lparr>twist_frame_id = [], twist_stamp = 0,
                    twist = zero_twist\<lparr>linear_x := Fin 1\<rparr>\<rparr>"

definition still_twist :: TwistStamped where
  "still_twist = \<lparr>twist_frame_id = [], twist_stamp = 4900000000, twist = zero_twist\<rparr>"

definition nan_twist :: TwistStamped where
  "nan_twist = \<lparr>twist_frame_id = [], twist_stamp = 4900000000,
                 twist = zero_twist\<lparr>linear_x := NaN\<rparr>\<rparr>"

text \<open>A jog command that names the joint and carries no velocity.\<close>

definition empty_jog :: JointJog where
  "empty_jog = \<lparr>jog_stamp = 4900000000, jog_joint_names = [''j1''], jog_velocities = []\<rparr>"


text \<open>A robot with two joints: \<open>a\<close> with acceleration limits of magnitude 2, \<open>b\<close> without
  acceleration bounds.\<close>

definition joint_a :: JointModel where
  "joint_a = \<lparr>getName = ''a'',
              getVariableBounds = unbounded\<lparr>min_acceleration := Fin (- 2),
                max_acceleration := Fin 2, acceleration_bounded := True\<rparr>,
              getVariableBoundsMsg = []\<rparr>"

definition joint_b :: JointModel where
  "joint_b = \<lparr>getName = ''b'', getVariableBounds = unbounded, getVariableBoundsMsg = []\<rparr>"

definition robot2 :: "vec Kinematics" where
  "robot2 = robot1\<lparr>getActiveJointModels := [joint_a, joint_b]\<rparr>"



section \<open>Properties\<close>

subsection \<open>Auxiliary facts\<close>

lemma less_double_irrefl: "\<not> (x::double) < x"
  by (cases x) simp_all

lemma Fin_le_iff: "(Fin a \<le> Fin b) = (a \<le> b)"
  by (auto simp: less_eq_double_def)

lemma foldl_update_other:
  "j \<notin> set is \<Longrightarrow> foldl (\<lambda>ps i. ps[i := f i]) pts is ! j = pts ! j"
  by (induction "is" arbitrary: pts) auto

lemma foldl_update_length:
  "length (foldl (\<lambda>ps i. ps[i := f i]) pts is) = length pts"
  by (induction "is" arbitrary: pts) auto

lemma foldl_update_at:
  "j \<in> set is \<Longrightarrow> j < length pts \<Longrightarrow> foldl (\<lambda>ps i. ps[i := f i]) pts is ! j = f j"
proof (induction "is" arbitrary: pts)
  case Nil
  then show ?case by simp
next
  case (Cons a rest)
  show ?case
  proof (cases "j \<in> set rest")
    case True
    with Cons show ?thesis by simp
  next
    case False
    with Cons.prems have "a = j" by simp
    with False Cons.prems show ?thesis by (simp add: foldl_update_other)
  qed
qed

text \<open>The analyzer on the one-joint robot, moving toward the singularity with the
  condition number exactly at the hard-stop threshold.\<close>

lemma analyzer_at_hard_threshold:
  "velocityScalingFactorForSingularity robot1 parameters1 [Fin 0, Fin (- 1)] svd2
     [[Fin 0, Fin 1]] servo1 = Some (Fin 1, servo1\<lparr>kinematic_state := [Fin (1 / 100)]\<rparr>)"
  by (simp add: velocityScalingFactorForSingularity_def robot1_def parameters1_def svd2_def
      servo1_def col_def at_index_def vec_div_def mat_vec_def vec_add_def unit_svd_def
      vec_scale_def dot_def less_eq_double_def Let_def)

subsection \<open>Singularity scaling\<close>

text \<open>
  C1. The analyzer is to return scale 0 and raise \<open>HALT_FOR_SINGULARITY\<close> whenever the
  motion is toward the singularity and the condition number is at or above the
  hard-stop threshold. The code tests \<open>ini_condition < hard\<close> for the ramp and
  \<open>ini_condition > hard\<close> for the halt, so a condition number exactly equal to the
  hard-stop threshold falls through both: whenever the analyzer returns with the
  condition number equal to the threshold, the scale is 1 and the status is the one
  it was called with.
\<close>

theorem analyzer_full_speed_at_hard_threshold:
  assumes "velocityScalingFactorForSingularity k p commanded_velocity svd pseudo_inverse s =
           Some (velocity_scale, s')"
    and "hd (singularValues svd) / last (singularValues svd) = hard_stop_singularity_threshold p"
  shows "velocity_scale = Fin 1 \<and> status s' = status s"
  using assms
  apply (simp add: velocityScalingFactorForSingularity_def Let_def bind_eq_Some_conv)
  apply (elim exE conjE)
  apply (simp add: at_index_def hd_conv_nth less_double_irrefl split: if_splits)
  apply clarsimp+
  done

theorem analyzer_full_speed_at_hard_threshold_witness:
  "velocityScalingFactorForSingularity robot1 parameters1 [Fin 0, Fin (- 1)] svd2
     [[Fin 0, Fin 1]] servo1 = Some (Fin 1, servo1\<lparr>kinematic_state := [Fin (1 / 100)]\<rparr>) \<and>
   hd (singularValues svd2) / last (singularValues svd2) =
     hard_stop_singularity_threshold parameters1 \<and>
   dot (vec_scale [Fin 0, Fin 1] (Fin (- 1))) [Fin 0, Fin (- 1)] = Some (Fin 1) \<and>
   status (servo1\<lparr>kinematic_state := [Fin (1 / 100)]\<rparr>) = status servo1"
proof -
  have threshold: "hd (singularValues svd2) / last (singularValues svd2) =
      hard_stop_singularity_threshold parameters1"
    by (simp add: svd2_def parameters1_def)
  have toward: "dot (vec_scale [Fin 0, Fin 1] (Fin (- 1))) [Fin 0, Fin (- 1)] = Some (Fin 1)"
    by (simp add: dot_def vec_scale_def)
  from analyzer_full_speed_at_hard_threshold [OF analyzer_at_hard_threshold threshold]
    analyzer_at_hard_threshold threshold toward
  show ?thesis by simp
qed

text \<open>
  C6 (as amended). The analyzer does not restore the joint positions after its probe.
  When it returns, the kinematic state is the one it was called with, set to the
  perturbed group positions \<open>theta + pseudo_inverse * (u_last / 100)\<close>, where \<open>u_last\<close> is
  the last column of \<open>U\<close>; the rest of the state, apart from the status, is unchanged.
\<close>

theorem analyzer_leaves_perturbed_positions:
  assumes "velocityScalingFactorForSingularity k p commanded_velocity svd pseudo_inverse s =
           Some (velocity_scale, s')"
  shows "\<exists>u step theta.
           col (matrixU svd) (length commanded_velocity - 1) = Some u \<and>
           mat_vec pseudo_inverse (vec_div u (Fin 100)) = Some step \<and>
           vec_add (copyJointGroupPositions k (kinematic_state s)) step = Some theta \<and>
           kinematic_state s' = setJointGroupPositions k theta (kinematic_state s) \<and>
           s' = s\<lparr>kinematic_state := kinematic_state s', status := status s'\<rparr>"
  using assms
  apply (simp add: velocityScalingFactorForSingularity_def Let_def bind_eq_Some_conv)
  apply (elim exE conjE)
  apply (simp split: if_splits)
  apply clarsimp+
  done

theorem analyzer_leaves_perturbed_positions_witness:
  "\<exists>u step theta.
     col (matrixU svd2) (length [Fin 0, Fin (- 1)] - 1) = Some u \<and>
     mat_vec [[Fin 0, Fin 1]] (vec_div u (Fin 100)) = Some step \<and>
     vec_add (copyJointGroupPositions robot1 (kinematic_state servo1)) step = Some theta \<and>
     kinematic_state (servo1\<lparr>kinematic_state := [Fin (1 / 100)]\<rparr>) =
       setJointGroupPositions robot1 theta (kinematic_state servo1) \<and>
     servo1\<lparr>kinematic_state := [Fin (1 / 100)]\<rparr> =
       servo1\<lparr>kinematic_state := kinematic_state (servo1\<lparr>kinematic_state := [Fin (1 / 100)]\<rparr>),
              status := status (servo1\<lparr>kinematic_state := [Fin (1 / 100)]\<rparr>)\<rparr>"
  using analyzer_leaves_perturbed_positions [OF analyzer_at_hard_threshold] .

text \<open>The claim as stated fails: on the one-joint robot the group positions are
  \<open>[0]\<close> on entry and \<open>[1/100]\<close> on return.\<close>

theorem analyzer_restores_positions_counterexample:
  "map_option (copyJointGroupPositions robot1 \<circ> kinematic_state \<circ> snd)
     (velocityScalingFactorForSingularity robot1 parameters1 [Fin 0, Fin (- 1)] svd2
        [[Fin 0, Fin 1]] servo1)
   \<noteq> Some (copyJointGroupPositions robot1 (kinematic_state servo1))"
  unfolding analyzer_at_hard_threshold by (simp add: robot1_def servo1_def)

subsection \<open>Redundant points for Gazebo\<close>

lemma redundant_points_general:
  assumes "points joint_trajectory = [point]" and "2 \<le> count"
  shows "length (points (insertRedundantPointsIntoTrajectory p joint_trajectory count)) =
           nat count \<and>
         points (insertRedundantPointsIntoTrajectory p joint_trajectory count) ! 0 = point \<and>
         points (insertRedundantPointsIntoTrajectory p joint_trajectory count) ! 1 =
           default_point \<and>
         (\<forall>i. 2 \<le> i \<and> i < nat count \<longrightarrow>
            points (insertRedundantPointsIntoTrajectory p joint_trajectory count) ! i =
            point\<lparr>time_from_start := Fin (real i) * publish_period p\<rparr>)"
proof -
  let ?pts = "resize_points (nat count) [point]"
  from assms have len: "length ?pts = nat count"
    by (simp add: resize_points_def)
  from assms have first: "?pts ! 0 = point"
    by (simp add: resize_points_def)
  from assms have second: "?pts ! Suc 0 = default_point"
    by (simp add: resize_points_def nth_append)
  from assms show ?thesis
    unfolding insertRedundantPointsIntoTrajectory_def Let_def
    by (simp add: foldl_update_other foldl_update_length foldl_update_at len first second)
qed

text \<open>
  C9. Of the 30 points every one is to be a copy of the computed point. The code resizes
  the list to 30 and then copies the first point into the entries from index 2 on: on a
  trajectory with one point the result has 30 points, the first is the computed point,
  the entries \<open>2, ..., 29\<close> are copies of it with \<open>time_from_start = i * publish_period\<close>, and
  the entry at index 1 is left default-constructed.
\<close>

theorem redundant_points_second_is_default:
  assumes "points joint_trajectory = [point]"
  shows "length (points (insertRedundantPointsIntoTrajectory p joint_trajectory
                   gazebo_redundant_message_count)) = 30 \<and>
         points (insertRedundantPointsIntoTrajectory p joint_trajectory
                   gazebo_redundant_message_count) ! 0 = point \<and>
         points (insertRedundantPointsIntoTrajectory p joint_trajectory
                   gazebo_redundant_message_count) ! 1 = default_point \<and>
         (\<forall>i. 2 \<le> i \<and> i < 30 \<longrightarrow>
            points (insertRedundantPointsIntoTrajectory p joint_trajectory
                      gazebo_redundant_message_count) ! i =
            point\<lparr>time_from_start := Fin (real i) * publish_period p\<rparr>)"
  using redundant_points_general [OF assms, of gazebo_redundant_message_count p]
  unfolding gazebo_redundant_message_count_def by simp

theorem redundant_points_second_is_default_witness:
  "points halted1 = [\<lparr>positions = [Fin 0], velocities = [Fin 0], accelerations = [],
                      time_from_start = Fin 1\<rparr>] \<and>
   positions (points (insertRedundantPointsIntoTrajectory parameters1 halted1
                        gazebo_redundant_message_count) ! 1) = [] \<and>
   positions (points (insertRedundantPointsIntoTrajectory parameters1 halted1
                        gazebo_redundant_message_count) ! 2) = [Fin 0]"
proof -
  have one: "points halted1 = [\<lparr>positions = [Fin 0], velocities = [Fin 0], accelerations = [],
                                time_from_start = Fin 1\<rparr>]"
    by (simp add: halted1_def)
  from redundant_points_second_is_default [OF one, of parameters1] one
  show ?thesis by (simp add: default_point_def)
qed


subsection \<open>Worst-case stop time\<close>

text \<open>
  C7. A joint without an acceleration bound is to contribute nothing to the published
  maximum. In the code \<open>accel_limit\<close> is declared before the loop and keeps the value of
  the last bounded joint (0 at first), and the maximum is updated for every entry of the
  incoming joint state. With joint \<open>a\<close> (limit 2) at velocity 1 and joint \<open>b\<close> (no bound)
  at velocity 5, the published stop time is 5/2, the velocity of \<open>b\<close> over the limit of
  \<open>a\<close>, and not 1/2.
\<close>

theorem stop_time_counts_unbounded_joint:
  "map_option worst_case_stop_time_pub
     (calculateWorstCaseStopTime robot2
        (servo1\<lparr>incoming_joint_state :=
           Some \<lparr>js_name = [''a'', ''b''], js_position = [Fin 0, Fin 0],
                 js_velocity = [Fin 1, Fin 5]\<rparr>\<rparr>)) = Some [Fin (5 / 2)]"
  by (simp add: calculateWorstCaseStopTime_def robot2_def robot1_def joint_a_def joint_b_def
      unbounded_def servo1_def at_index_def std_min_def std_max_def)

subsection \<open>Collision scaling\<close>

lemma applyJointUpdate_keeps:
  "applyJointUpdate p s = Some (b, s') \<Longrightarrow>
   delta_theta s' = delta_theta s \<and> status s' = status s"
  by (auto simp: applyJointUpdate_def Let_def split: if_splits)

lemma applyCollisionScale_delta:
  "delta_theta (applyCollisionScale s) = vec_scale (delta_theta s) (collision_velocity_scale s)"
  by (simp add: applyCollisionScale_def Let_def)

lemma applyCollisionScale_status:
  "status (applyCollisionScale s) =
     (if Fin 0 < collision_velocity_scale s \<and> collision_velocity_scale s < Fin 1
      then DECELERATE_FOR_COLLISION
      else if collision_velocity_scale s = Fin 0 then HALT_FOR_COLLISION else status s)"
  by (simp add: applyCollisionScale_def Let_def)


lemma internalServoUpdate_SomeD:
  assumes "internalServoUpdate k p now jt s = Some (ok, jt', s')"
  shows "\<exists>limited s2.
           enforceSRDFAccelVelLimits k p (prev_joint_velocity s) (delta_theta s) = Some limited \<and>
           applyJointUpdate p
             (applyCollisionScale (s\<lparr>internal_joint_state := original_joint_state s,
                delta_theta := limited\<rparr>)) = Some (ok, s2) \<and>
           (if ok then composeAndCheckLimits k p now jt (s2\<lparr>updated_filters := True\<rparr>) =
                         Some (jt', s')
            else jt' = jt \<and> s' = s2)"
  using assms unfolding internalServoUpdate_def
  by (auto simp: Let_def bind_eq_Some_conv split: if_splits)

text \<open>The shared update on the one-joint robot, with a joint delta of 1 and the value
  \<open>c\<close> received as collision velocity scale.\<close>

lemma internalServoUpdate_example:
  "c = Fin 2 \<or> c = Fin (1 / 2) \<Longrightarrow>
   map_option (\<lambda>r. (delta_theta (snd (snd r)), status (snd (snd r))))
     (internalServoUpdate robot1 parameters1 0 default_trajectory
        (collisionVelocityScaleCB c (servo1\<lparr>delta_theta := [Fin 1]\<rparr>))) =
   Some ([Fin 1 * c], if c = Fin 2 then NO_WARNING else DECELERATE_FOR_COLLISION)"
  by (auto simp add: internalServoUpdate_def collisionVelocityScaleCB_def servo1_def robot1_def
      parameters1_def enforceSRDFAccelVelLimits_def vec_div_def vec_sub_def at_index_def
      joint_j1_def unbounded_def enforceSingleVelAccelLimit_def clipAcceleration_def
      clipVelocity_def applyCollisionScale_def
      vec_scale_def applyJointUpdate_def joint_state1_def filter_apply_def
      composeAndCheckLimits_def composeJointTrajMessage_def enforceSRDFPositionLimits_def
      default_trajectory_def num_joints_def zero_vec_def minus_double_def Let_def)

lemma enforceSRDFPositionLimits_loop_cong:
  "kinematic_state a = kinematic_state b \<Longrightarrow> original_joint_state a = original_joint_state b \<Longrightarrow>
   enforceSRDFPositionLimits_loop k p a js h = enforceSRDFPositionLimits_loop k p b js h"
  by (induction js arbitrary: h) (simp_all add: Let_def)

lemma enforceSRDFPositionLimits_cong:
  "kinematic_state a = kinematic_state b \<Longrightarrow> original_joint_state a = original_joint_state b \<Longrightarrow>
   enforceSRDFPositionLimits k p a = enforceSRDFPositionLimits k p b"
  by (simp add: enforceSRDFPositionLimits_def enforceSRDFPositionLimits_loop_cong [of a b])

lemma applyJointUpdate_limits:
  "applyJointUpdate p s = Some (b, s') \<Longrightarrow>
   kinematic_state s' = kinematic_state s \<and> original_joint_state s' = original_joint_state s"
  by (auto simp: applyJointUpdate_def Let_def split: if_splits)

lemma composeAndCheckLimits_status:
  assumes "composeAndCheckLimits k p now jt s = Some (jt', s')"
  shows "\<exists>w. enforceSRDFPositionLimits k p s = Some w \<and>
             status s' = (if w then status s else JOINT_BOUND) \<and>
             delta_theta s' = delta_theta s"
proof -
  from assms obtain w jt1 where
    w: "enforceSRDFPositionLimits k p s = Some w" and
    branch: "(if \<not> w then suddenHalt k p s (composeJointTrajMessage k p now (internal_joint_state s) jt) \<bind>
                (\<lambda>halted. Some (halted, s\<lparr>status := JOINT_BOUND,
                   prev_joint_velocity := zero_vec (length (prev_joint_velocity s))\<rparr>))
              else Some (composeJointTrajMessage k p now (internal_joint_state s) jt, s)) =
             Some (jt1, s')"
    unfolding composeAndCheckLimits_def Let_def
    by (auto simp: bind_eq_Some_conv)
  from branch have "status s' = (if w then status s else JOINT_BOUND) \<and>
             delta_theta s' = delta_theta s"
    by (cases w) (auto simp: bind_eq_Some_conv)
  with w show ?thesis by blast
qed

text \<open>
  C3 (as amended). The shared update does not clamp the collision velocity scale: the
  value \<open>c\<close> received by \<open>collisionVelocityScaleCB\<close> multiplies the limited joint delta as
  it is. If \<open>0 < c < 1\<close> the status is set to \<open>DECELERATE_FOR_COLLISION\<close>, if \<open>c = 0\<close> to
  \<open>HALT_FOR_COLLISION\<close>, and otherwise it is left as it was. The status is replaced by
  \<open>JOINT_BOUND\<close> exactly when the joint update succeeds and the check of the position
  limits then fails.
\<close>

theorem collision_scale_applied_as_received:
  assumes "internalServoUpdate k p now joint_trajectory (collisionVelocityScaleCB c s) =
           Some (updated, joint_trajectory', s')"
  shows "\<exists>limited.
           enforceSRDFAccelVelLimits k p (prev_joint_velocity s) (delta_theta s) = Some limited \<and>
           delta_theta s' = vec_scale limited c \<and>
           status s' =
             (if updated \<and> enforceSRDFPositionLimits k p s = Some False then JOINT_BOUND
              else if Fin 0 < c \<and> c < Fin 1 then DECELERATE_FOR_COLLISION
              else if c = Fin 0 then HALT_FOR_COLLISION
              else status s)"
proof -
  let ?s0 = "collisionVelocityScaleCB c s"
  from internalServoUpdate_SomeD [OF assms] obtain limited s2 where
    lim: "enforceSRDFAccelVelLimits k p (prev_joint_velocity ?s0) (delta_theta ?s0) = Some limited"
    and app: "applyJointUpdate p
       (applyCollisionScale (?s0\<lparr>internal_joint_state := original_joint_state ?s0,
          delta_theta := limited\<rparr>)) = Some (updated, s2)"
    and rest: "if updated
       then composeAndCheckLimits k p now joint_trajectory (s2\<lparr>updated_filters := True\<rparr>) =
              Some (joint_trajectory', s')
       else joint_trajectory' = joint_trajectory \<and> s' = s2"
    by blast
  define collided where "collided =
       (if Fin 0 < c \<and> c < Fin 1 then DECELERATE_FOR_COLLISION
        else if c = Fin 0 then HALT_FOR_COLLISION else status s)"
  from applyJointUpdate_keeps [OF app]
  have d2: "delta_theta s2 = vec_scale limited c"
    and st2: "status s2 = collided"
    by (simp_all add: applyCollisionScale_delta applyCollisionScale_status
        collisionVelocityScaleCB_def collided_def)
  from applyJointUpdate_limits [OF app]
  have same: "kinematic_state (s2\<lparr>updated_filters := True\<rparr>) = kinematic_state s"
    "original_joint_state (s2\<lparr>updated_filters := True\<rparr>) = original_joint_state s"
    by (simp_all add: applyCollisionScale_def collisionVelocityScaleCB_def Let_def)
  have "delta_theta s' = delta_theta s2 \<and>
        status s' = (if updated \<and> enforceSRDFPositionLimits k p s = Some False then JOINT_BOUND
                     else collided)"
  proof (cases updated)
    case True
    with rest have "composeAndCheckLimits k p now joint_trajectory
        (s2\<lparr>updated_filters := True\<rparr>) = Some (joint_trajectory', s')"
      by simp
    from composeAndCheckLimits_status [OF this] obtain w where
      "enforceSRDFPositionLimits k p (s2\<lparr>updated_filters := True\<rparr>) = Some w"
      "status s' = (if w then status (s2\<lparr>updated_filters := True\<rparr>) else JOINT_BOUND)"
      "delta_theta s' = delta_theta (s2\<lparr>updated_filters := True\<rparr>)"
      by blast
    moreover from this(1) enforceSRDFPositionLimits_cong [OF same, of k p]
    have "enforceSRDFPositionLimits k p s = Some w" by simp
    ultimately show ?thesis using True st2
      by (cases w) simp_all
  next
    case False
    with rest st2 show ?thesis by simp
  qed
  with d2 lim show ?thesis
    unfolding collided_def by (simp add: collisionVelocityScaleCB_def)
qed

theorem collision_scale_applied_as_received_witness:
  "\<exists>joint_trajectory' s'.
     internalServoUpdate robot1 parameters1 0 default_trajectory
       (collisionVelocityScaleCB (Fin (1 / 2)) (servo1\<lparr>delta_theta := [Fin 1]\<rparr>)) =
       Some (True, joint_trajectory', s') \<and>
     enforceSRDFAccelVelLimits robot1 parameters1
       (prev_joint_velocity (servo1\<lparr>delta_theta := [Fin 1]\<rparr>))
       (delta_theta (servo1\<lparr>delta_theta := [Fin 1]\<rparr>)) = Some [Fin 1] \<and>
     enforceSRDFPositionLimits robot1 parameters1 (servo1\<lparr>delta_theta := [Fin 1]\<rparr>) = Some True \<and>
     delta_theta s' = [Fin (1 / 2)] \<and>
     status s' = DECELERATE_FOR_COLLISION"
proof -
  let ?s = "servo1\<lparr>delta_theta := [Fin 1]\<rparr>"
  have lim: "enforceSRDFAccelVelLimits robot1 parameters1 (prev_joint_velocity ?s) (delta_theta ?s) =
      Some [Fin 1]"
    by (simp add: enforceSRDFAccelVelLimits_def servo1_def robot1_def parameters1_def
        vec_div_def vec_sub_def at_index_def joint_j1_def unbounded_def
        enforceSingleVelAccelLimit_def clipAcceleration_def clipVelocity_def minus_double_def
        Let_def)
  have pos: "enforceSRDFPositionLimits robot1 parameters1 ?s = Some True"
    by (simp add: enforceSRDFPositionLimits_def servo1_def robot1_def parameters1_def
        joint_j1_def joint_state1_def at_index_def Let_def)
  have "\<exists>joint_trajectory' s'. internalServoUpdate robot1 parameters1 0 default_trajectory
       (collisionVelocityScaleCB (Fin (1 / 2)) ?s) = Some (True, joint_trajectory', s')"
    by (simp add: internalServoUpdate_def collisionVelocityScaleCB_def servo1_def robot1_def
      parameters1_def enforceSRDFAccelVelLimits_def vec_div_def vec_sub_def at_index_def
      joint_j1_def unbounded_def enforceSingleVelAccelLimit_def clipAcceleration_def
      clipVelocity_def applyCollisionScale_def
      vec_scale_def applyJointUpdate_def joint_state1_def filter_apply_def
      composeAndCheckLimits_def composeJointTrajMessage_def enforceSRDFPositionLimits_def
      default_trajectory_def num_joints_def zero_vec_def minus_double_def Let_def)
  then obtain joint_trajectory' s' where
    run: "internalServoUpdate robot1 parameters1 0 default_trajectory
       (collisionVelocityScaleCB (Fin (1 / 2)) ?s) = Some (True, joint_trajectory', s')"
    by blast
  from collision_scale_applied_as_received [OF run] lim pos
  have "delta_theta s' = [Fin (1 / 2)] \<and> status s' = DECELERATE_FOR_COLLISION"
    by (simp add: vec_scale_def)
  with run lim pos show ?thesis by blast
qed

text \<open>The claim as stated fails: a received scale of 2 doubles the joint delta, where a
  multiplier clamped to \<open>[0, 1]\<close> would leave it at 1.\<close>

theorem collision_scale_clamped_counterexample:
  "map_option (delta_theta \<circ> snd \<circ> snd)
     (internalServoUpdate robot1 parameters1 0 default_trajectory
        (collisionVelocityScaleCB (Fin 2) (servo1\<lparr>delta_theta := [Fin 1]\<rparr>))) = Some [Fin 2]"
  using internalServoUpdate_example [of "Fin 2"]
  by (auto simp: map_option_case split: option.splits)


subsection \<open>Velocity and acceleration limits\<close>
























subsection \<open>The tick\<close>


lemma updateJoints_enough:
  "updateJoints k s = Some (b, s') \<Longrightarrow>
   b \<longleftrightarrow> (\<exists>incoming. incoming_joint_state s = Some incoming \<and>
                        num_joints k \<le> length (js_name incoming))"
  by (auto simp: updateJoints_def bind_eq_Some_conv split: if_splits)

lemma calculateWorstCaseStopTime_frame:
  "calculateWorstCaseStopTime k s = Some s' \<Longrightarrow>
   \<exists>w. s' = s\<lparr>worst_case_stop_time_pub := w\<rparr>"
  by (auto simp: calculateWorstCaseStopTime_def bind_eq_Some_conv split: prod.splits)

lemma updateFromLatestState_frame:
  "updateFromLatestState k p now s = Some s' \<Longrightarrow>
   \<exists>ks. s' = s\<lparr>kinematic_state := ks,
          twist_stamped_cmd := selected_twist s,
          joint_servo_cmd := selected_jog s,
          twist_command_is_stale :=
            (incoming_command_timeout p \<le> now - latest_twist_command_stamp s),
          joint_command_is_stale :=
            (incoming_command_timeout p \<le> now - latest_joint_command_stamp s),
          have_nonzero_twist_stamped := latest_nonzero_twist_stamped s,
          have_nonzero_joint_command := latest_nonzero_joint_cmd s\<rparr>"
  by (cases "latest_twist_stamped s"; cases "latest_joint_cmd s")
     (auto simp: updateFromLatestState_def Let_def bind_eq_Some_conv selected_twist_def
        selected_jog_def)

lemma selected_simps:
  "selected_twist (s\<lparr>worst_case_stop_time_pub := w\<rparr>) = selected_twist s"
  "selected_jog (s\<lparr>worst_case_stop_time_pub := w\<rparr>) = selected_jog s"
  "selected_twist (s\<lparr>internal_joint_state := a, original_joint_state := b\<rparr>) = selected_twist s"
  "selected_jog (s\<lparr>internal_joint_state := a, original_joint_state := b\<rparr>) = selected_jog s"
  "selected_twist (s\<lparr>status_pub := c, status := d\<rparr>) = selected_twist s"
  "selected_jog (s\<lparr>status_pub := c, status := d\<rparr>) = selected_jog s"
  by (simp_all add: selected_twist_def selected_jog_def split: option.split)

lemma run_begin_SomeD:
  assumes "run_begin k p now s = Some (True, st)"
  shows "\<exists>js w ks tf.
         st = s\<lparr>status_pub := status_pub s @ [status s], status := NO_WARNING,
            internal_joint_state := js, original_joint_state := js,
            worst_case_stop_time_pub := w,
            kinematic_state := ks,
            twist_stamped_cmd := selected_twist s,
            joint_servo_cmd := selected_jog s,
            twist_command_is_stale :=
              (incoming_command_timeout p \<le> now - latest_twist_command_stamp s),
            joint_command_is_stale :=
              (incoming_command_timeout p \<le> now - latest_joint_command_stamp s),
            have_nonzero_twist_stamped := latest_nonzero_twist_stamped s,
            have_nonzero_joint_command := latest_nonzero_joint_cmd s,
            tf_moveit_to_robot_cmd_frame := tf,
            have_nonzero_command :=
              (latest_nonzero_twist_stamped s \<or> latest_nonzero_joint_cmd s),
            updated_filters := False\<rparr>"
proof -
  let ?s0 = "s\<lparr>status_pub := status_pub s @ [status s], status := NO_WARNING\<rparr>"
  from assms obtain s1 s2 s3 where
    u: "updateJoints k ?s0 = Some (True, s1)" and
    c: "calculateWorstCaseStopTime k s1 = Some s2" and
    l: "updateFromLatestState k p now s2 = Some s3" and
    st: "st = s3\<lparr>tf_moveit_to_robot_cmd_frame :=
                   isometry_mul
                     (isometry_inverse
                        (getGlobalLinkTransform k (kinematic_state s3) (planning_frame p)))
                     (getGlobalLinkTransform k (kinematic_state s3)
                        (robot_link_command_frame p)),
                have_nonzero_command :=
                   (have_nonzero_twist_stamped s3 \<or> have_nonzero_joint_command s3),
                updated_filters := False\<rparr>"
    unfolding run_begin_def Let_def
    by (auto simp: bind_eq_Some_conv split: if_splits)
  from u have "\<exists>js. s1 = ?s0\<lparr>internal_joint_state := js, original_joint_state := js\<rparr>"
    by (auto simp: updateJoints_def bind_eq_Some_conv split: if_splits)
  then obtain js where 1: "s1 = ?s0\<lparr>internal_joint_state := js, original_joint_state := js\<rparr>"
    by blast
  from calculateWorstCaseStopTime_frame [OF c] obtain w where
    2: "s2 = s1\<lparr>worst_case_stop_time_pub := w\<rparr>" by blast
  from updateFromLatestState_frame [OF l] obtain ks where
    3: "s3 = s2\<lparr>kinematic_state := ks,
          twist_stamped_cmd := selected_twist s2,
          joint_servo_cmd := selected_jog s2,
          twist_command_is_stale :=
            (incoming_command_timeout p \<le> now - latest_twist_command_stamp s2),
          joint_command_is_stale :=
            (incoming_command_timeout p \<le> now - latest_joint_command_stamp s2),
          have_nonzero_twist_stamped := latest_nonzero_twist_stamped s2,
          have_nonzero_joint_command := latest_nonzero_joint_cmd s2\<rparr>" by blast
  show ?thesis
    apply (rule exI [of _ js], rule exI [of _ w], rule exI [of _ ks])
    apply (rule exI [of _ "tf_moveit_to_robot_cmd_frame st"])
    apply (simp add: st 3 2 1 selected_simps)
    done
qed

lemma run_begin_enough:
  "run_begin k p now s = Some (b, st) \<Longrightarrow>
   b \<longleftrightarrow> (\<exists>incoming. incoming_joint_state s = Some incoming \<and>
                        num_joints k \<le> length (js_name incoming))"
  unfolding run_begin_def Let_def
  by (auto simp: bind_eq_Some_conv  updateJoints_def split: if_splits)



lemma resetLowPassFilters_frame:
  "resetLowPassFilters js s = Some s' \<Longrightarrow>
   \<exists>f. s' = s\<lparr>position_filters := f, updated_filters := True\<rparr>"
  by (auto simp: resetLowPassFilters_def split: if_splits)



lemma run_SomeD:
  assumes run: "run k p now s = Some s'"
    and enough: "incoming_joint_state s = Some incoming" "num_joints k \<le> length (js_name incoming)"
    and active: "\<not> wait_for_servo_commands s" "\<not> paused s"
  shows "\<exists>st calculated joint_trajectory s3.
           run_begin k p now s = Some (True, st) \<and>
           run_servo_calcs k p now st = Some (calculated, joint_trajectory, s3) \<and>
           (if calculated then run_finish k p now joint_trajectory s3 = Some s'
            else resetLowPassFilters (original_joint_state s3) s3 = Some s')"
proof -
  from run obtain b st where rb: "run_begin k p now s = Some (b, st)"
    by (auto simp: run_def bind_eq_Some_conv)
  from run_begin_enough [OF rb] enough have b: "b" by simp
  from run_begin_SomeD [OF rb [unfolded b [THEN eqTrueI]]] active
  have "\<not> wait_for_servo_commands st" "\<not> paused st" by auto
  with run rb b show ?thesis
    by (auto simp: run_def bind_eq_Some_conv split: if_splits)
qed




lemmas run_eval =
  run_def run_begin_def servo1_def robot1_def parameters1_def updateJoints_def
      num_joints_def joint_state_name_map_def joint_j1_def joint_state1_def at_index_def
      set_index_def calculateWorstCaseStopTime_def unbounded_def updateFromLatestState_def
      run_servo_calcs_def run_finish_def haltIfNoCommand_def decidePublication_def
      countZeroVelocity_def suddenHalt_def halted1_def zero_vec_def publish_outgoing_def
      resetLowPassFilters_def filter_reset_def INT_MAX_def std_max_def std_min_def
      twistStampedCB_def moving_twist_def still_twist_def isNonZero_twist_def zero_twist_def Let_def





























subsection \<open>Bounds on the emitted velocity\<close>





subsection \<open>Halt messages\<close>






subsection \<open>Command validation\<close>

lemma not_greater_iff_abs_le:
  "\<not> isnan x \<Longrightarrow> \<not> Fin 1 < \<bar>x\<bar> \<longleftrightarrow> \<bar>x\<bar> \<le> Fin 1"
  by (cases x) (auto simp: less_eq_double_def)

lemma checkValidCommand_twist_iff:
  "checkValidCommand_twist p c \<longleftrightarrow>
     (\<not> isnan (linear_x (twist c)) \<and> \<not> isnan (linear_y (twist c)) \<and>
      \<not> isnan (linear_z (twist c)) \<and> \<not> isnan (angular_x (twist c)) \<and>
      \<not> isnan (angular_y (twist c)) \<and> \<not> isnan (angular_z (twist c))) \<and>
     (command_in_type p = ''unitless'' \<longrightarrow>
        \<bar>linear_x (twist c)\<bar> \<le> Fin 1 \<and> \<bar>linear_y (twist c)\<bar> \<le> Fin 1 \<and>
        \<bar>linear_z (twist c)\<bar> \<le> Fin 1 \<and> \<bar>angular_x (twist c)\<bar> \<le> Fin 1 \<and>
        \<bar>angular_y (twist c)\<bar> \<le> Fin 1 \<and> \<bar>angular_z (twist c)\<bar> \<le> Fin 1)"
proof (cases "\<not> isnan (linear_x (twist c)) \<and> \<not> isnan (linear_y (twist c)) \<and>
      \<not> isnan (linear_z (twist c)) \<and> \<not> isnan (angular_x (twist c)) \<and>
      \<not> isnan (angular_y (twist c)) \<and> \<not> isnan (angular_z (twist c))")
  case True
  then show ?thesis
    by (simp add: checkValidCommand_twist_def not_greater_iff_abs_le [symmetric])
next
  case False
  then show ?thesis
    by (auto simp: checkValidCommand_twist_def)
qed

lemma invalid_twist_is_nonzero:
  "\<not> checkValidCommand_twist p c \<Longrightarrow> isNonZero_twist c"
  unfolding checkValidCommand_twist_def isNonZero_twist_def
  by (auto split: if_splits)


text \<open>
  C5 (as amended). A twist command is accepted if and only if none of its six components
  is not-a-number and, when \<open>command_in_type\<close> is \<open>unitless\<close>, each component's absolute
  value is at most 1; an infinite component is therefore rejected in \<open>unitless\<close> mode
  only. When a tick that is neither waiting nor paused selects an invalid twist (the
  latest one, not stale), it publishes no command, keeps the last sent command and the
  zero-velocity counter, and leaves the status at the \<open>NO_WARNING\<close> it was reset to.
\<close>

theorem invalid_twist_rejected:
  assumes run: "run k p now (twistStampedCB cmd s) = Some s'"
    and enough: "incoming_joint_state s = Some incoming" "num_joints k \<le> length (js_name incoming)"
    and active: "\<not> wait_for_servo_commands s" "\<not> paused s"
    and fresh: "now - latest_twist_command_stamp (twistStampedCB cmd s) < incoming_command_timeout p"
    and invalid: "\<not> checkValidCommand_twist p cmd"
  shows "(\<forall>c. checkValidCommand_twist p c \<longleftrightarrow>
           (\<not> isnan (linear_x (twist c)) \<and> \<not> isnan (linear_y (twist c)) \<and>
            \<not> isnan (linear_z (twist c)) \<and> \<not> isnan (angular_x (twist c)) \<and>
            \<not> isnan (angular_y (twist c)) \<and> \<not> isnan (angular_z (twist c))) \<and>
           (command_in_type p = ''unitless'' \<longrightarrow>
              \<bar>linear_x (twist c)\<bar> \<le> Fin 1 \<and> \<bar>linear_y (twist c)\<bar> \<le> Fin 1 \<and>
              \<bar>linear_z (twist c)\<bar> \<le> Fin 1 \<and> \<bar>angular_x (twist c)\<bar> \<le> Fin 1 \<and>
              \<bar>angular_y (twist c)\<bar> \<le> Fin 1 \<and> \<bar>angular_z (twist c)\<bar> \<le> Fin 1)) \<and>
         outgoing_cmd_pub s' = outgoing_cmd_pub s \<and>
         last_sent_command s' = last_sent_command s \<and>
         zero_velocity_count s' = zero_velocity_count s \<and>
         status s' = NO_WARNING"
proof -
  let ?x = "twistStampedCB cmd s"
  have x: "incoming_joint_state ?x = Some incoming" "\<not> wait_for_servo_commands ?x" "\<not> paused ?x"
    "latest_twist_stamped ?x = Some cmd"
    "latest_nonzero_twist_stamped ?x"
    "outgoing_cmd_pub ?x = outgoing_cmd_pub s" "last_sent_command ?x = last_sent_command s"
    "zero_velocity_count ?x = zero_velocity_count s"
    using enough active invalid_twist_is_nonzero [OF invalid]
    by (simp_all add: twistStampedCB_def Let_def)
  from run_SomeD [OF run x(1) enough(2) x(2,3)] obtain st calculated joint_trajectory s3 where
    rb: "run_begin k p now ?x = Some (True, st)" and
    calc: "run_servo_calcs k p now st = Some (calculated, joint_trajectory, s3)" and
    rest: "if calculated then run_finish k p now joint_trajectory s3 = Some s'
           else resetLowPassFilters (original_joint_state s3) s3 = Some s'"
    by blast
  from run_begin_SomeD [OF rb] obtain js w ks tf where
    st: "st = ?x\<lparr>status_pub := status_pub ?x @ [status ?x], status := NO_WARNING,
            internal_joint_state := js, original_joint_state := js,
            worst_case_stop_time_pub := w,
            kinematic_state := ks,
            twist_stamped_cmd := selected_twist ?x,
            joint_servo_cmd := selected_jog ?x,
            twist_command_is_stale :=
              (incoming_command_timeout p \<le> now - latest_twist_command_stamp ?x),
            joint_command_is_stale :=
              (incoming_command_timeout p \<le> now - latest_joint_command_stamp ?x),
            have_nonzero_twist_stamped := latest_nonzero_twist_stamped ?x,
            have_nonzero_joint_command := latest_nonzero_joint_cmd ?x,
            tf_moveit_to_robot_cmd_frame := tf,
            have_nonzero_command :=
              (latest_nonzero_twist_stamped ?x \<or> latest_nonzero_joint_cmd ?x),
            updated_filters := False\<rparr>"
    by blast
  have sel: "have_nonzero_twist_stamped st" "\<not> twist_command_is_stale st"
    "twist_stamped_cmd st = cmd"
    using x(4,5) fresh by (simp_all add: st selected_twist_def)
  from calc sel invalid have c: "\<not> calculated" and s3: "s3 = st"
    by (auto simp: run_servo_calcs_def cartesianServoCalcs_def)
  from rest c s3 have "resetLowPassFilters (original_joint_state st) st = Some s'" by simp
  from resetLowPassFilters_frame [OF this] obtain f where
    s': "s' = st\<lparr>position_filters := f, updated_filters := True\<rparr>" by blast
  have "outgoing_cmd_pub s' = outgoing_cmd_pub s" "last_sent_command s' = last_sent_command s"
    "zero_velocity_count s' = zero_velocity_count s" "status s' = NO_WARNING"
    using x(6,7,8) by (simp_all add: s' st)
  with checkValidCommand_twist_iff show ?thesis by blast
qed


theorem invalid_twist_rejected_witness:
  "\<exists>s'. run robot1 parameters1 5000000000 (twistStampedCB nan_twist servo1) = Some s' \<and>
        \<not> checkValidCommand_twist parameters1 nan_twist \<and>
        outgoing_cmd_pub s' = outgoing_cmd_pub servo1 \<and> status s' = NO_WARNING"
proof -
  have "run robot1 parameters1 5000000000 (twistStampedCB nan_twist servo1) \<noteq> None"
    by (simp add: run_eval nan_twist_def cartesianServoCalcs_def checkValidCommand_twist_def)
  then obtain s' where
    run: "run robot1 parameters1 5000000000 (twistStampedCB nan_twist servo1) = Some s'"
    by blast
  have hyps: "incoming_joint_state servo1 = Some joint_state1"
    "num_joints robot1 \<le> length (js_name joint_state1)"
    "\<not> wait_for_servo_commands servo1" "\<not> paused servo1"
    "5000000000 - latest_twist_command_stamp (twistStampedCB nan_twist servo1)
       < incoming_command_timeout parameters1"
    "\<not> checkValidCommand_twist parameters1 nan_twist"
    by (simp_all add: servo1_def num_joints_def robot1_def joint_state1_def parameters1_def
        twistStampedCB_def nan_twist_def checkValidCommand_twist_def zero_twist_def Let_def)
  from invalid_twist_rejected [OF run hyps] run hyps(6) show ?thesis by blast
qed

text \<open>The claim as stated fails: in \<open>speed_units\<close> mode a twist with an infinite component
  is accepted.\<close>

theorem infinite_twist_accepted_counterexample:
  "checkValidCommand_twist parameters1
     \<lparr>twist_frame_id = [], twist_stamp = 1, twist = zero_twist\<lparr>linear_x := PInf\<rparr>\<rparr> \<and>
   command_in_type parameters1 = ''speed_units''"
  by (simp add: checkValidCommand_twist_def parameters1_def zero_twist_def)


subsection \<open>Commands without a stamp\<close>

text \<open>
  C8 (as amended). A twist or jog command whose header stamp is zero is stored as the
  latest command and becomes the command of the next tick, but it leaves the latest
  command stamp as it was. The tick computes staleness from that stamp: the command is
  stale exactly when \<open>now\<close> minus the last nonzero stamp received (zero if there was
  none) has reached \<open>incoming_command_timeout\<close>.
\<close>

theorem unstamped_command_keeps_last_stamp:
  assumes "twist_stamp tmsg = 0" and "jog_stamp jmsg = 0"
  shows "latest_twist_stamped (twistStampedCB tmsg s) = Some tmsg \<and>
         latest_twist_command_stamp (twistStampedCB tmsg s) = latest_twist_command_stamp s \<and>
         (\<forall>now st. run_begin k p now (twistStampedCB tmsg s) = Some (True, st) \<longrightarrow>
            twist_stamped_cmd st = tmsg \<and>
            latest_twist_command_stamp st = latest_twist_command_stamp s \<and>
            (twist_command_is_stale st \<longleftrightarrow>
               incoming_command_timeout p \<le> now - latest_twist_command_stamp s)) \<and>
         latest_joint_cmd (jointCmdCB jmsg s) = Some jmsg \<and>
         latest_joint_command_stamp (jointCmdCB jmsg s) = latest_joint_command_stamp s \<and>
         (\<forall>now st. run_begin k p now (jointCmdCB jmsg s) = Some (True, st) \<longrightarrow>
            joint_servo_cmd st = jmsg \<and>
            latest_joint_command_stamp st = latest_joint_command_stamp s \<and>
            (joint_command_is_stale st \<longleftrightarrow>
               incoming_command_timeout p \<le> now - latest_joint_command_stamp s))"
proof -
  have twist: "twist_stamped_cmd st = tmsg \<and>
            latest_twist_command_stamp st = latest_twist_command_stamp s \<and>
            (twist_command_is_stale st \<longleftrightarrow>
               incoming_command_timeout p \<le> now - latest_twist_command_stamp s)"
    if rb: "run_begin k p now (twistStampedCB tmsg s) = Some (True, st)" for now st
  proof -
    from run_begin_SomeD [OF rb] obtain js w ks tf where
      "st = (twistStampedCB tmsg s)\<lparr>status_pub :=
              status_pub (twistStampedCB tmsg s) @ [status (twistStampedCB tmsg s)],
            status := NO_WARNING,
            internal_joint_state := js, original_joint_state := js,
            worst_case_stop_time_pub := w,
            kinematic_state := ks,
            twist_stamped_cmd := selected_twist (twistStampedCB tmsg s),
            joint_servo_cmd := selected_jog (twistStampedCB tmsg s),
            twist_command_is_stale :=
              (incoming_command_timeout p
                 \<le> now - latest_twist_command_stamp (twistStampedCB tmsg s)),
            joint_command_is_stale :=
              (incoming_command_timeout p
                 \<le> now - latest_joint_command_stamp (twistStampedCB tmsg s)),
            have_nonzero_twist_stamped := latest_nonzero_twist_stamped (twistStampedCB tmsg s),
            have_nonzero_joint_command := latest_nonzero_joint_cmd (twistStampedCB tmsg s),
            tf_moveit_to_robot_cmd_frame := tf,
            have_nonzero_command :=
              (latest_nonzero_twist_stamped (twistStampedCB tmsg s) \<or>
               latest_nonzero_joint_cmd (twistStampedCB tmsg s)),
            updated_filters := False\<rparr>"
      by blast
    with assms(1) show ?thesis
      by (simp add: twistStampedCB_def selected_twist_def Let_def)
  qed
  have jog: "joint_servo_cmd st = jmsg \<and>
            latest_joint_command_stamp st = latest_joint_command_stamp s \<and>
            (joint_command_is_stale st \<longleftrightarrow>
               incoming_command_timeout p \<le> now - latest_joint_command_stamp s)"
    if rb: "run_begin k p now (jointCmdCB jmsg s) = Some (True, st)" for now st
  proof -
    from run_begin_SomeD [OF rb] obtain js w ks tf where
      "st = (jointCmdCB jmsg s)\<lparr>status_pub :=
              status_pub (jointCmdCB jmsg s) @ [status (jointCmdCB jmsg s)],
            status := NO_WARNING,
            internal_joint_state := js, original_joint_state := js,
            worst_case_stop_time_pub := w,
            kinematic_state := ks,
            twist_stamped_cmd := selected_twist (jointCmdCB jmsg s),
            joint_servo_cmd := selected_jog (jointCmdCB jmsg s),
            twist_command_is_stale :=
              (incoming_command_timeout p
                 \<le> now - latest_twist_command_stamp (jointCmdCB jmsg s)),
            joint_command_is_stale :=
              (incoming_command_timeout p
                 \<le> now - latest_joint_command_stamp (jointCmdCB jmsg s)),
            have_nonzero_twist_stamped := latest_nonzero_twist_stamped (jointCmdCB jmsg s),
            have_nonzero_joint_command := latest_nonzero_joint_cmd (jointCmdCB jmsg s),
            tf_moveit_to_robot_cmd_frame := tf,
            have_nonzero_command :=
              (latest_nonzero_twist_stamped (jointCmdCB jmsg s) \<or>
               latest_nonzero_joint_cmd (jointCmdCB jmsg s)),
            updated_filters := False\<rparr>"
      by blast
    with assms(2) show ?thesis
      by (simp add: jointCmdCB_def selected_jog_def Let_def)
  qed
  from assms have
    "latest_twist_stamped (twistStampedCB tmsg s) = Some tmsg"
    "latest_twist_command_stamp (twistStampedCB tmsg s) = latest_twist_command_stamp s"
    "latest_joint_cmd (jointCmdCB jmsg s) = Some jmsg"
    "latest_joint_command_stamp (jointCmdCB jmsg s) = latest_joint_command_stamp s"
    by (simp_all add: twistStampedCB_def jointCmdCB_def Let_def)
  with twist jog show ?thesis by blast
qed

theorem unstamped_command_keeps_last_stamp_witness:
  "twist_stamp moving_twist = 0 \<and>
   jog_stamp (empty_jog\<lparr>jog_stamp := 0\<rparr>) = 0 \<and>
   (\<exists>st. run_begin robot1 parameters1 5000000000 (twistStampedCB moving_twist servo1) =
            Some (True, st) \<and>
      twist_stamped_cmd st = moving_twist \<and> twist_command_is_stale st)"
proof -
  have t: "twist_stamp moving_twist = 0" by (simp add: moving_twist_def)
  have j: "jog_stamp (empty_jog\<lparr>jog_stamp := 0\<rparr>) = 0" by simp
  have "\<exists>st. run_begin robot1 parameters1 5000000000 (twistStampedCB moving_twist servo1) =
          Some (True, st)"
    by (simp add: run_eval)
  then obtain st where
    rb: "run_begin robot1 parameters1 5000000000 (twistStampedCB moving_twist servo1) =
         Some (True, st)"
    by blast
  from unstamped_command_keeps_last_stamp [OF t j, of servo1 robot1 parameters1] rb
  have "twist_stamped_cmd st = moving_twist \<and>
        (twist_command_is_stale st \<longleftrightarrow>
           incoming_command_timeout parameters1 \<le> 5000000000 - latest_twist_command_stamp servo1)"
    by blast
  then have "twist_stamped_cmd st = moving_twist \<and> twist_command_is_stale st"
    by (simp add: parameters1_def servo1_def)
  with t j rb show ?thesis by blast
qed

text \<open>The claim as stated fails: a unit twist with a zero stamp, arriving when no stamped
  command has been received, is stale on a tick at 5 s with a timeout of 1 s.\<close>

theorem unstamped_command_stale_counterexample:
  "map_option (twist_command_is_stale \<circ> snd)
     (run_begin robot1 parameters1 5000000000 (twistStampedCB moving_twist servo1)) =
   Some True \<and>
   twist_stamp moving_twist = 0 \<and> isNonZero_twist moving_twist"
  by (simp add: run_eval)


subsection \<open>Jog commands without velocities\<close>

text \<open>
  C10. For a jog command with an empty list of velocities \<open>isNonZero\<close> is false, so the
  callback clears the nonzero flag and a tick that starts from there does not take the
  joint branch: its servo calculation is the Cartesian one when a nonzero twist that is
  not stale is present and the copy of the last sent command otherwise. When no nonzero
  twist is present either, the tick has no nonzero command and takes the last sent
  command, which it then halts; \<open>scaleJointCommand\<close>, whose indexing of the velocities
  would be out of range, is not called.
\<close>

theorem empty_jog_not_selected:
  assumes "jog_velocities msg = []"
  shows "\<not> isNonZero_jog msg \<and>
         \<not> latest_nonzero_joint_cmd (jointCmdCB msg s) \<and>
         (\<forall>now st. run_begin k p now (jointCmdCB msg s) = Some (True, st) \<longrightarrow>
            \<not> have_nonzero_joint_command st \<and>
            run_servo_calcs k p now st =
              (if have_nonzero_twist_stamped st \<and> \<not> twist_command_is_stale st
               then cartesianServoCalcs k p now default_trajectory st
               else last_sent_command st \<bind> (\<lambda>last_sent. Some (True, last_sent, st))) \<and>
            (\<not> latest_nonzero_twist_stamped s \<longrightarrow>
               \<not> have_nonzero_command st \<and>
               run_servo_calcs k p now st =
                 last_sent_command st \<bind> (\<lambda>last_sent. Some (True, last_sent, st))))"
proof -
  from assms have nz: "\<not> isNonZero_jog msg"
    by (simp add: isNonZero_jog_def)
  then have flag: "\<not> latest_nonzero_joint_cmd (jointCmdCB msg s)"
    by (simp add: jointCmdCB_def Let_def)
  have tick: "\<not> have_nonzero_joint_command st \<and>
            run_servo_calcs k p now st =
              (if have_nonzero_twist_stamped st \<and> \<not> twist_command_is_stale st
               then cartesianServoCalcs k p now default_trajectory st
               else last_sent_command st \<bind> (\<lambda>last_sent. Some (True, last_sent, st))) \<and>
            (\<not> latest_nonzero_twist_stamped s \<longrightarrow>
               \<not> have_nonzero_command st \<and>
               run_servo_calcs k p now st =
                 last_sent_command st \<bind> (\<lambda>last_sent. Some (True, last_sent, st)))"
    if rb: "run_begin k p now (jointCmdCB msg s) = Some (True, st)" for now st
  proof -
    let ?x = "jointCmdCB msg s"
    from run_begin_SomeD [OF rb] obtain js w ks tf where
      "st = ?x\<lparr>status_pub := status_pub ?x @ [status ?x], status := NO_WARNING,
            internal_joint_state := js, original_joint_state := js,
            worst_case_stop_time_pub := w,
            kinematic_state := ks,
            twist_stamped_cmd := selected_twist ?x,
            joint_servo_cmd := selected_jog ?x,
            twist_command_is_stale :=
              (incoming_command_timeout p \<le> now - latest_twist_command_stamp ?x),
            joint_command_is_stale :=
              (incoming_command_timeout p \<le> now - latest_joint_command_stamp ?x),
            have_nonzero_twist_stamped := latest_nonzero_twist_stamped ?x,
            have_nonzero_joint_command := latest_nonzero_joint_cmd ?x,
            tf_moveit_to_robot_cmd_frame := tf,
            have_nonzero_command :=
              (latest_nonzero_twist_stamped ?x \<or> latest_nonzero_joint_cmd ?x),
            updated_filters := False\<rparr>"
      by blast
    then have f: "have_nonzero_joint_command st = latest_nonzero_joint_cmd ?x"
      "have_nonzero_twist_stamped st = latest_nonzero_twist_stamped ?x"
      "have_nonzero_command st =
         (latest_nonzero_twist_stamped ?x \<or> latest_nonzero_joint_cmd ?x)"
      by simp_all
    have t: "latest_nonzero_twist_stamped ?x = latest_nonzero_twist_stamped s"
      by (simp add: jointCmdCB_def Let_def)
    from f flag t show ?thesis
      by (simp add: run_servo_calcs_def)
  qed
  from nz flag tick show ?thesis by blast
qed

theorem empty_jog_not_selected_witness:
  "jog_velocities empty_jog = [] \<and> jog_joint_names empty_jog \<noteq> [] \<and>
   \<not> isNonZero_jog empty_jog \<and>
   (\<exists>st. run_begin robot1 parameters1 5000000000 (jointCmdCB empty_jog servo1) = Some (True, st) \<and>
      \<not> have_nonzero_command st \<and>
      run_servo_calcs robot1 parameters1 5000000000 st =
        last_sent_command st \<bind> (\<lambda>last_sent. Some (True, last_sent, st))) \<and>
   scaleJointCommand robot1 parameters1 empty_jog = None \<and>
   run robot1 parameters1 5000000000 (jointCmdCB empty_jog servo1) \<noteq> None"
proof -
  have e: "jog_velocities empty_jog = []" by (simp add: empty_jog_def)
  have "\<exists>st. run_begin robot1 parameters1 5000000000 (jointCmdCB empty_jog servo1) =
          Some (True, st)"
    by (simp add: run_eval jointCmdCB_def empty_jog_def isNonZero_jog_def)
  then obtain st where
    rb: "run_begin robot1 parameters1 5000000000 (jointCmdCB empty_jog servo1) = Some (True, st)"
    by blast
  have z: "\<not> latest_nonzero_twist_stamped servo1" by (simp add: servo1_def)
  have oob: "scaleJointCommand robot1 parameters1 empty_jog = None"
    by (simp add: scaleJointCommand_def empty_jog_def robot1_def parameters1_def
        joint_state_name_map_def num_joints_def joint_j1_def at_index_def zero_vec_def)
  have total: "run robot1 parameters1 5000000000 (jointCmdCB empty_jog servo1) \<noteq> None"
    by (simp add: run_eval jointCmdCB_def empty_jog_def isNonZero_jog_def)
  from empty_jog_not_selected [OF e, of servo1 robot1 parameters1] rb z
  have "\<not> isNonZero_jog empty_jog \<and> \<not> have_nonzero_command st \<and>
      run_servo_calcs robot1 parameters1 5000000000 st =
        last_sent_command st \<bind> (\<lambda>last_sent. Some (True, last_sent, st))"
    by blast
  moreover have "jog_joint_names empty_jog \<noteq> []" by (simp add: empty_jog_def)
  ultimately show ?thesis using e rb oob total by blast
qed


end
